theory Spec2Isabelle
  imports Complex_Main "HOL-Library.Sublist" "HOL-Library.Word"
begin

section \<open>Values shared by the scripts\<close>

text \<open>
  What a JavaScript statement can throw is a value of \<open>js_error\<close>; a function that can
  throw returns \<open>js_error + 'a\<close>, and every \<open>try/catch\<close> of the source is a case
  distinction on that sum.
\<close>

datatype js_error = TypeError | RangeError | SyntaxError | NetworkError

text \<open>\<open>String.prototype.includes\<close>: the pattern occurs somewhere in the text.\<close>

fun str_includes :: "string \<Rightarrow> string \<Rightarrow> bool" where
  "str_includes [] p = (p = [])"
| "str_includes (c # cs) p = (prefix p (c # cs) \<or> str_includes cs p)"

section \<open>The migration listener (class PumpFunMigrationListener)\<close>

definition MIGRATION_ACCOUNT :: string where
  "MIGRATION_ACCOUNT = ''39azUYFWPz3VHgKCf3VChUwbpURdCHRxjWVowf5jUJjg''"

definition RAYDIUM_PROGRAM :: string where
  "RAYDIUM_PROGRAM = ''675kPX9MHTjS2zt1qfr1NYHuzeLXfQM9H24wFSUt1Mp8''"

definition PUMPFUN_PROGRAM :: string where
  "PUMPFUN_PROGRAM = ''6EF8rrecthR5Dkzon8Nwu78hRvfCKubJ14M5uBEwF6P''"

subsection \<open>Data\<close>

text \<open>
  A \<open>PublicKey\<close> is represented by the text its \<open>toString()\<close> gives. An instruction of
  a fetched transaction carries \<open>programIdIndex\<close> (compiled form) or \<open>programId\<close>
  (parsed form) and possibly \<open>accounts\<close>; a field the object does not have is
  \<open>None\<close> (\<open>undefined\<close>).
\<close>

type_synonym pubkey = string

record tx_instruction =
  programIdIndex :: "nat option"
  programId :: "pubkey option"
  accounts :: "nat list option"

record tx_message =
  addressTableLookups :: bool
  staticAccountKeys :: "pubkey list option"
  accountKeys :: "pubkey list option"
  compiledInstructions :: "tx_instruction list option"
  instructions :: "tx_instruction list option"

record fetched_tx =
  message :: tx_message
  slot :: nat
  blockTime :: "nat option"

datatype migration =
  Raydium (m_signature: string) (m_slot: nat) (m_blockTime: "nat option")
    (poolAddress: string) (tokenAddress: string) (quoteMint: string) (lpMint: string)
| PumpSwap (m_signature: string) (m_slot: nat) (m_blockTime: "nat option")
    (tokenAddress: string) (bondingCurve: string)

text \<open>The \<open>value\<close> of a \<open>logsNotification\<close>; \<open>err\<close> is \<open>null\<close> for a successful transaction.\<close>

record log_value =
  signature :: string
  err :: "string option"
  logs :: "string list"

text \<open>
  The listener object. \<open>fetched\<close> is not a field of the class: it records, in call
  order, the signatures passed to \<open>connection.getTransaction\<close>.
\<close>

record listener =
  isConnected :: bool
  reconnectAttempts :: nat
  maxReconnectAttempts :: nat
  raydiumMigrationCount :: nat
  pumpswapMigrationCount :: nat
  migrations :: "migration list"
  totalLogsReceived :: nat
  subscriptionId :: "nat option"
  fetched :: "string list"

definition new_listener :: listener where
  "new_listener = \<lparr> isConnected = False, reconnectAttempts = 0, maxReconnectAttempts = 10,
     raydiumMigrationCount = 0, pumpswapMigrationCount = 0, migrations = [],
     totalLogsReceived = 0, subscriptionId = None, fetched = [] \<rparr>"

subsection \<open>Connection lifecycle\<close>

definition handleOpen :: "listener \<Rightarrow> listener" where
  "handleOpen s = s\<lparr> isConnected := True, reconnectAttempts := 0 \<rparr>"

text \<open>What \<open>handleClose\<close> asks of the runtime: a timer that reconnects, or the exit.\<close>

datatype close_action = ReconnectAfter nat | ProcessExit

definition handleClose :: "listener \<Rightarrow> listener \<times> close_action" where
  "handleClose s =
     (let s1 = s\<lparr> isConnected := False \<rparr> in
      if reconnectAttempts s1 < maxReconnectAttempts s1 then
        (let s2 = s1\<lparr> reconnectAttempts := reconnectAttempts s1 + 1 \<rparr>;
             delay = min (1000 * 2 ^ reconnectAttempts s2) 30000
         in (s2, ReconnectAfter delay))
      else (s1, ProcessExit))"

text \<open>\<open>n\<close> closes in a row with no successful open in between; the delays asked for, in order.\<close>

fun closes :: "nat \<Rightarrow> listener \<Rightarrow> close_action list" where
  "closes 0 s = []"
| "closes (Suc n) s = (case handleClose s of (s', a) \<Rightarrow> a # closes n s')"

subsection \<open>Extracting the migration from a fetched transaction\<close>

text \<open>\<open>xs[i]\<close> on a JavaScript array: \<open>undefined\<close> out of range, never an exception.\<close>

definition at_index :: "'a list \<Rightarrow> nat \<Rightarrow> 'a option" where
  "at_index xs i = (if i < length xs then Some (xs ! i) else None)"

text \<open>
  \<open>accountKeys[i]\<close> where \<open>accountKeys\<close> itself may be \<open>undefined\<close> (then the
  indexing throws), and \<open>accountKeys[i].toString()\<close>, which throws on \<open>undefined\<close>.
\<close>

definition key_at :: "pubkey list option \<Rightarrow> nat \<Rightarrow> js_error + pubkey option" where
  "key_at keys i = (case keys of None \<Rightarrow> Inl TypeError | Some ks \<Rightarrow> Inr (at_index ks i))"

definition key_text :: "pubkey list option \<Rightarrow> nat \<Rightarrow> js_error + string" where
  "key_text keys i =
     (case key_at keys i of Inl e \<Rightarrow> Inl e | Inr None \<Rightarrow> Inl TypeError | Inr (Some k) \<Rightarrow> Inr k)"

text \<open>The object literal of the Raydium branch; its fields are evaluated in source order.\<close>

definition raydiumData ::
  "pubkey list option \<Rightarrow> fetched_tx \<Rightarrow> string \<Rightarrow> nat list \<Rightarrow> js_error + migration" where
  "raydiumData keys tx sg accs =
     (case key_text keys (accs ! 1) of Inl e \<Rightarrow> Inl e | Inr pool \<Rightarrow>
      case key_text keys (accs ! 5) of Inl e \<Rightarrow> Inl e | Inr token \<Rightarrow>
      case key_text keys (accs ! 6) of Inl e \<Rightarrow> Inl e | Inr quote \<Rightarrow>
      case key_text keys (accs ! 4) of Inl e \<Rightarrow> Inl e | Inr lp \<Rightarrow>
        Inr (Raydium sg (slot tx) (blockTime tx) pool token quote lp))"

definition pumpswapData ::
  "pubkey list option \<Rightarrow> fetched_tx \<Rightarrow> string \<Rightarrow> js_error + migration" where
  "pumpswapData keys tx sg =
     (case key_at keys 2 of Inl e \<Rightarrow> Inl e | Inr k2 \<Rightarrow>
      case key_at keys 1 of Inl e \<Rightarrow> Inl e | Inr k1 \<Rightarrow>
        Inr (PumpSwap sg (slot tx) (blockTime tx)
               (case k2 of Some k \<Rightarrow> k | None \<Rightarrow> ''Unknown'')
               (case k1 of Some k \<Rightarrow> k | None \<Rightarrow> ''Unknown'')))"

text \<open>The program of an instruction, as the loop body computes it.\<close>

definition instructionProgram ::
  "pubkey list option \<Rightarrow> tx_instruction \<Rightarrow> js_error + pubkey option" where
  "instructionProgram keys ins =
     (case programIdIndex ins of Some i \<Rightarrow> key_at keys i | None \<Rightarrow> Inr (programId ins))"

text \<open>
  The \<open>for\<close> loop of \<open>extractMigrationData\<close>: \<open>Inr (Some m)\<close> is a \<open>return\<close> of the
  object, \<open>Inr None\<close> the loop running to its end, \<open>Inl e\<close> an exception on its way to
  the \<open>catch\<close>. The accounts of the Raydium branch are only read once there are 7 of them.
\<close>

fun scanInstructions ::
  "pubkey list option \<Rightarrow> fetched_tx \<Rightarrow> string \<Rightarrow> tx_instruction list
     \<Rightarrow> js_error + migration option" where
  "scanInstructions keys tx sg [] = Inr None"
| "scanInstructions keys tx sg (ins # rest) =
     (case instructionProgram keys ins of
        Inl e \<Rightarrow> Inl e
      | Inr pid \<Rightarrow>
          if pid = Some RAYDIUM_PROGRAM then
            (case accounts ins of
               None \<Rightarrow> scanInstructions keys tx sg rest
             | Some accs \<Rightarrow>
                 if length accs < 7 then scanInstructions keys tx sg rest
                 else (case raydiumData keys tx sg accs of
                         Inl e \<Rightarrow> Inl e | Inr m \<Rightarrow> Inr (Some m)))
          else if pid = Some PUMPFUN_PROGRAM then
            (case pumpswapData keys tx sg of Inl e \<Rightarrow> Inl e | Inr m \<Rightarrow> Inr (Some m))
          else scanInstructions keys tx sg rest)"

text \<open>\<open>a || b\<close> on two possibly missing arrays (an array, even empty, is truthy).\<close>

definition or_else :: "'a option \<Rightarrow> 'a option \<Rightarrow> 'a option" where
  "or_else a b = (case a of Some x \<Rightarrow> Some x | None \<Rightarrow> b)"

text \<open>
  The two variables the function starts with: the key list and the instruction list, taken
  from the versioned fields when the message has address table lookups.
\<close>

definition selectedKeys :: "tx_message \<Rightarrow> pubkey list option" where
  "selectedKeys m =
     (if addressTableLookups m then or_else (staticAccountKeys m) (accountKeys m)
      else accountKeys m)"

definition selectedInstructions :: "tx_message \<Rightarrow> tx_instruction list option" where
  "selectedInstructions m =
     (if addressTableLookups m then or_else (compiledInstructions m) (instructions m)
      else instructions m)"

text \<open>
  \<open>Object.values\<close> of a missing instruction list throws; that and every exception of the
  loop end in the \<open>catch\<close>, after which the function returns \<open>null\<close>.
\<close>

definition extractMigrationData :: "fetched_tx \<Rightarrow> string \<Rightarrow> migration option" where
  "extractMigrationData tx sg =
     (case selectedInstructions (message tx) of
        None \<Rightarrow> None
      | Some ins \<Rightarrow>
          (case scanInstructions (selectedKeys (message tx)) tx sg ins of
             Inl e \<Rightarrow> None
           | Inr r \<Rightarrow> r))"

subsection \<open>Handling log notifications\<close>

text \<open>
  \<open>connection.getTransaction\<close> is the provider's answer for a signature: an exception,
  \<open>null\<close> or the transaction. It is a parameter of everything that fetches.
\<close>

type_synonym rpc = "string \<Rightarrow> js_error + fetched_tx option"

definition fetchAndProcessTransaction :: "rpc \<Rightarrow> string \<Rightarrow> listener \<Rightarrow> listener" where
  "fetchAndProcessTransaction getTransaction sg s =
     (let s1 = s\<lparr> fetched := fetched s @ [sg] \<rparr> in
      case getTransaction sg of
        Inl e \<Rightarrow> s1
      | Inr None \<Rightarrow> s1
      | Inr (Some tx) \<Rightarrow>
          (case extractMigrationData tx sg of
             None \<Rightarrow> s1
           | Some migrationData \<Rightarrow>
               (let s2 = s1\<lparr> migrations := migrations s1 @ [migrationData] \<rparr> in
                case migrationData of
                  Raydium _ _ _ _ _ _ _ \<Rightarrow>
                    s2\<lparr> raydiumMigrationCount := raydiumMigrationCount s2 + 1 \<rparr>
                | PumpSwap _ _ _ _ _ \<Rightarrow>
                    s2\<lparr> pumpswapMigrationCount := pumpswapMigrationCount s2 + 1 \<rparr>)))"

definition hasMigration :: "string list \<Rightarrow> bool" where
  "hasMigration ls =
     list_ex (\<lambda>log. str_includes log ''Instruction: Migrate'' \<or> str_includes log ''migrate''
                     \<or> str_includes log ''initialize2'') ls"

definition processLog :: "rpc \<Rightarrow> log_value \<Rightarrow> listener \<Rightarrow> listener" where
  "processLog getTransaction v s =
     (let s1 = s\<lparr> totalLogsReceived := totalLogsReceived s + 1 \<rparr> in
      if err v \<noteq> None then s1
      else if hasMigration (logs v) then fetchAndProcessTransaction getTransaction (signature v) s1
      else s1)"

text \<open>
  A frame of the WebSocket after \<open>JSON.parse\<close>: text that does not parse, the answer to
  the subscription request, a log notification, or anything else.
\<close>

datatype ws_frame = Unparsable | SubscribeResult nat | LogsNotification log_value | OtherFrame

definition handleMessage :: "rpc \<Rightarrow> ws_frame \<Rightarrow> listener \<Rightarrow> listener" where
  "handleMessage getTransaction frame s =
     (case frame of
        Unparsable \<Rightarrow> s
      | SubscribeResult n \<Rightarrow> (if n \<noteq> 0 then s\<lparr> subscriptionId := Some n \<rparr> else s)
      | LogsNotification v \<Rightarrow> processLog getTransaction v s
      | OtherFrame \<Rightarrow> s)"

text \<open>
  The frames of a connection are handled in arrival order. (The handler is \<open>async\<close>: the
  part of \<open>processLog\<close> before the fetch runs on arrival, the fetch and what follows it
  complete later; which fetches are made, and for which signatures, does not depend on
  when they complete.)
\<close>

definition handleMessages :: "rpc \<Rightarrow> ws_frame list \<Rightarrow> listener \<Rightarrow> listener" where
  "handleMessages getTransaction frames s =
     foldl (\<lambda>st frame. handleMessage getTransaction frame st) s frames"

text \<open>
  The signatures for which a list of frames asks a fetch, one entry per notification of
  a succeeded transaction whose logs name a migration, in arrival order.
\<close>

definition fetch_requests :: "ws_frame list \<Rightarrow> string list" where
  "fetch_requests frames =
     concat (map (\<lambda>frame. case frame of
                     LogsNotification v \<Rightarrow>
                       if err v = None \<and> hasMigration (logs v) then [signature v] else []
                   | _ \<Rightarrow> []) frames)"

text \<open>
  An instruction that ends the scan of \<open>extractMigrationData\<close>: its program is the
  Raydium program and it has at least 7 accounts, or its program is the Pump.fun program.
\<close>

definition migrationCandidate :: "pubkey list \<Rightarrow> tx_instruction \<Rightarrow> bool" where
  "migrationCandidate ks ins =
     (let pid = (case programIdIndex ins of Some i \<Rightarrow> at_index ks i | None \<Rightarrow> programId ins) in
      (pid = Some RAYDIUM_PROGRAM \<and> (case accounts ins of None \<Rightarrow> False | Some accs \<Rightarrow> 7 \<le> length accs))
      \<or> pid = Some PUMPFUN_PROGRAM)"

text \<open>Inputs for the listener: a provider that finds no transaction, and three notifications.\<close>

definition not_found :: rpc where
  "not_found sg = Inr None"

definition migrate_log :: log_value where
  "migrate_log = \<lparr> signature = ''5sig'', err = None,
     logs = [''Program 39azUYFW invoke [1]'', ''Program log: Instruction: Migrate''] \<rparr>"

definition failed_migrate_log :: log_value where
  "failed_migrate_log = \<lparr> signature = ''7sig'', err = Some ''InstructionError'',
     logs = [''Program log: Instruction: Migrate''] \<rparr>"

text \<open>
  A fetched legacy transaction of three instructions: one of another program, one of the
  Pump.fun program, one of the Raydium program with seven accounts.
\<close>

definition example_keys :: "pubkey list" where
  "example_keys = [''payer'', ''curve'', ''token'', ''ComputeBudget111111111111111111111111111111'',
     PUMPFUN_PROGRAM, RAYDIUM_PROGRAM, ''pool'', ''lp'']"

definition example_tx :: fetched_tx where
  "example_tx = \<lparr> message = \<lparr> addressTableLookups = False, staticAccountKeys = None,
       accountKeys = Some example_keys, compiledInstructions = None,
       instructions = Some
         [\<lparr> programIdIndex = Some 3, programId = None, accounts = Some [] \<rparr>,
          \<lparr> programIdIndex = Some 4, programId = None, accounts = Some [0, 1, 2] \<rparr>,
          \<lparr> programIdIndex = Some 5, programId = None,
            accounts = Some [0, 6, 1, 0, 7, 2, 2] \<rparr>] \<rparr>,
     slot = 42, blockTime = Some 1700000000 \<rparr>"

section \<open>Byte buffers and Base58\<close>

type_synonym byte = "8 word"

text \<open>The little-endian value of a run of bytes.\<close>

definition le_value :: "byte list \<Rightarrow> nat" where
  "le_value bs = foldr (\<lambda>b acc. unat b + 256 * acc) bs 0"

text \<open>
  \<open>Buffer.readUInt32LE\<close> and \<open>Buffer.readBigUInt64LE\<close> throw a RangeError unless the
  whole field lies inside the buffer.
\<close>

definition readUInt32LE :: "byte list \<Rightarrow> nat \<Rightarrow> js_error + nat" where
  "readUInt32LE buffer offset =
     (if offset + 4 \<le> length buffer then Inr (le_value (take 4 (drop offset buffer)))
      else Inl RangeError)"

definition readBigUInt64LE :: "byte list \<Rightarrow> nat \<Rightarrow> js_error + nat" where
  "readBigUInt64LE buffer offset =
     (if offset + 8 \<le> length buffer then Inr (le_value (take 8 (drop offset buffer)))
      else Inl RangeError)"

text \<open>\<open>Buffer.slice(start, end)\<close> clamps both ends to the buffer and never throws.\<close>

definition slice :: "byte list \<Rightarrow> nat \<Rightarrow> nat \<Rightarrow> byte list" where
  "slice buffer start end = take (end - start) (drop start buffer)"

text \<open>
  \<open>bs58.encode\<close>: one \<open>1\<close> for every leading zero byte, then the big-endian value of
  the rest in base 58, most significant digit first.
\<close>

definition ALPHABET :: string where
  "ALPHABET = ''123456789ABCDEFGHJKLMNPQRSTUVWXYZabcdefghijkmnopqrstuvwxyz''"

definition be_value :: "byte list \<Rightarrow> nat" where
  "be_value bs = foldl (\<lambda>acc b. acc * 256 + unat b) 0 bs"

fun base58_digits :: "nat \<Rightarrow> nat list" where
  "base58_digits n = (if n = 0 then [] else base58_digits (n div 58) @ [n mod 58])"

declare base58_digits.simps [simp del]

definition bs58_encode :: "byte list \<Rightarrow> string" where
  "bs58_encode source =
     replicate (length (takeWhile (\<lambda>b. b = 0) source)) (CHR ''1'') @
     map (\<lambda>d. ALPHABET ! d) (base58_digits (be_value (dropWhile (\<lambda>b. b = 0) source)))"

text \<open>\<open>bs58.encode(keys[i])\<close> and \<open>Buffer.from(keys[i])\<close> throw when \<open>keys[i]\<close> is \<open>undefined\<close>.\<close>

definition encode_key :: "byte list list \<Rightarrow> nat \<Rightarrow> js_error + string" where
  "encode_key keys i =
     (case at_index keys i of None \<Rightarrow> Inl TypeError | Some k \<Rightarrow> Inr (bs58_encode k))"

section \<open>The messages of the gRPC stream\<close>

text \<open>
  Both gRPC monitors read the same update: a \<open>pong\<close>, or a transaction with its
  signature, slot, account keys and instructions, and the names of the filters it matched.
  \<open>meta_err\<close> is the failure the provider reports for the transaction (\<open>None\<close> when it
  succeeded). Instruction accounts are a \<open>Uint8Array\<close> of indices.
\<close>

record grpc_instruction =
  programIdIndex :: nat
  accounts :: "byte list"
  data :: "byte list"

record grpc_transaction =
  signature :: "byte list"
  slot :: nat
  accountKeys :: "byte list list"
  instructions :: "grpc_instruction list"
  meta_err :: "string option"

record grpc_update =
  pong :: "nat option"
  transaction :: "grpc_transaction option"
  filters :: "string list option"

section \<open>The token mint monitor (pumpfun-monitor.js)\<close>

definition CREATE_DISCRIMINATOR :: "byte list" where
  "CREATE_DISCRIMINATOR = [24, 30, 200, 40, 5, 28, 7, 119]"

text \<open>
  \<open>Buffer.toString("utf8")\<close> is the runtime's decoder; it is total (malformed input is
  replaced, not rejected) and is the parameter \<open>utf8\<close> of what follows.
\<close>

text \<open>The decoder on bytes below 128, each of which is the character of that code.\<close>

definition ascii_text :: "byte list \<Rightarrow> string" where
  "ascii_text bs = map (\<lambda>b. char_of (unat b)) bs"

record 's decoded =
  str_value :: 's
  bytesRead :: nat

definition decodeString :: "(byte list \<Rightarrow> 's) \<Rightarrow> byte list \<Rightarrow> nat \<Rightarrow> js_error + 's decoded" where
  "decodeString utf8 buffer offset =
     (case readUInt32LE buffer offset of
        Inl e \<Rightarrow> Inl e
      | Inr len \<Rightarrow>
          Inr \<lparr> str_value = utf8 (slice buffer (offset + 4) (offset + 4 + len)),
                bytesRead = 4 + len \<rparr>)"

record 's token_metadata =
  name :: 's
  symbol :: 's
  uri :: 's

definition parseCreateInstruction :: "(byte list \<Rightarrow> 's) \<Rightarrow> byte list \<Rightarrow> 's token_metadata option" where
  "parseCreateInstruction utf8 dat =
     (case decodeString utf8 dat 8 of
        Inl e \<Rightarrow> None
      | Inr nm \<Rightarrow>
          (case decodeString utf8 dat (8 + bytesRead nm) of
             Inl e \<Rightarrow> None
           | Inr sy \<Rightarrow>
               (case decodeString utf8 dat (8 + bytesRead nm + bytesRead sy) of
                  Inl e \<Rightarrow> None
                | Inr ur \<Rightarrow>
                    Some \<lparr> name = str_value nm, symbol = str_value sy, uri = str_value ur \<rparr>)))"

record mint_accounts =
  mint :: "string option"
  bondingCurve :: "string option"
  creator :: "string option"

text \<open>The \<open>map\<close> over the account indices: the first key that is missing throws.\<close>

fun encode_keys :: "byte list list \<Rightarrow> nat list \<Rightarrow> js_error + string list" where
  "encode_keys keys [] = Inr []"
| "encode_keys keys (i # rest) =
     (case encode_key keys i of
        Inl e \<Rightarrow> Inl e
      | Inr a \<Rightarrow> (case encode_keys keys rest of Inl e \<Rightarrow> Inl e | Inr as \<Rightarrow> Inr (a # as)))"

definition extractAccounts :: "grpc_transaction \<Rightarrow> nat \<Rightarrow> mint_accounts option" where
  "extractAccounts tx instructionIndex =
     (case at_index (instructions tx) instructionIndex of
        None \<Rightarrow> None
      | Some instruction \<Rightarrow>
          (case encode_keys (accountKeys tx) (map unat (accounts instruction)) of
             Inl e \<Rightarrow> None
           | Inr as \<Rightarrow>
               Some \<lparr> mint = at_index as 0, bondingCurve = at_index as 2,
                      creator = at_index as 7 \<rparr>))"

definition isCreateInstruction :: "grpc_instruction \<Rightarrow> byte list list \<Rightarrow> js_error + bool" where
  "isCreateInstruction instruction keys =
     (case encode_key keys (programIdIndex instruction) of
        Inl e \<Rightarrow> Inl e
      | Inr pid \<Rightarrow>
          if pid \<noteq> PUMPFUN_PROGRAM then Inr False
          else Inr (slice (data instruction) 0 8 = CREATE_DISCRIMINATOR))"

text \<open>
  What \<open>displayTokenMint\<close> prints, and the state of the monitor: the counter of the
  \<open>stats\<close> object, the mints displayed so far and the pings written to the stream.
\<close>

record 's token_mint =
  metadata :: "'s token_metadata"
  addresses :: mint_accounts
  mint_signature :: string
  mint_slot :: nat

record 's mint_monitor =
  totalMints :: nat
  displayed :: "'s token_mint list"
  pings :: "nat list"

definition displayTokenMint ::
  "'s token_metadata \<Rightarrow> mint_accounts \<Rightarrow> string \<Rightarrow> nat \<Rightarrow> 's mint_monitor \<Rightarrow> 's mint_monitor" where
  "displayTokenMint md accs sg sl st =
     st\<lparr> totalMints := totalMints st + 1,
         displayed := displayed st @
           [\<lparr> metadata = md, addresses = accs, mint_signature = sg, mint_slot = sl \<rparr>] \<rparr>"

text \<open>
  The loop over the instructions, from index \<open>i\<close> on. An exception of
  \<open>isCreateInstruction\<close> leaves the loop for the handler's \<open>catch\<close>; what was displayed
  before stays displayed.
\<close>

fun checkInstructions ::
  "(byte list \<Rightarrow> 's) \<Rightarrow> grpc_transaction \<Rightarrow> string \<Rightarrow> nat \<Rightarrow> grpc_instruction list
     \<Rightarrow> 's mint_monitor \<Rightarrow> 's mint_monitor" where
  "checkInstructions utf8 tx sg i [] st = st"
| "checkInstructions utf8 tx sg i (instruction # rest) st =
     (case isCreateInstruction instruction (accountKeys tx) of
        Inl e \<Rightarrow> st
      | Inr False \<Rightarrow> checkInstructions utf8 tx sg (i + 1) rest st
      | Inr True \<Rightarrow>
          (case parseCreateInstruction utf8 (data instruction) of
             None \<Rightarrow> checkInstructions utf8 tx sg (i + 1) rest st
           | Some tokenMetadata \<Rightarrow>
               (case extractAccounts tx i of
                  None \<Rightarrow> checkInstructions utf8 tx sg (i + 1) rest st
                | Some accs \<Rightarrow>
                    checkInstructions utf8 tx sg (i + 1) rest
                      (displayTokenMint tokenMetadata accs sg (slot tx) st))))"

text \<open>The \<open>data\<close> handler of \<open>monitorPumpfunMints\<close>.\<close>

definition onMintData :: "(byte list \<Rightarrow> 's) \<Rightarrow> grpc_update \<Rightarrow> 's mint_monitor \<Rightarrow> 's mint_monitor" where
  "onMintData utf8 msg st =
     (case pong msg of
        Some ident \<Rightarrow> st\<lparr> pings := pings st @ [ident] \<rparr>
      | None \<Rightarrow>
          (case (transaction msg, filters msg) of
             (Some tx, Some fs) \<Rightarrow>
               if ''pumpfun'' \<in> set fs
               then checkInstructions utf8 tx (bs58_encode (signature tx)) 0 (instructions tx) st
               else st
           | _ \<Rightarrow> st))"

section \<open>The high value transfer monitor\<close>

definition SYSTEM_PROGRAM :: string where
  "SYSTEM_PROGRAM = ''11111111111111111111111111111111''"

definition MIN_TRANSFER_AMOUNT :: real where
  "MIN_TRANSFER_AMOUNT = 100"

text \<open>
  The numbers of this script are doubles that hold non-negative integers. \<open>to_double\<close>
  is the double nearest to an integer (ties to the even significand of 53 bits): it is
  what \<open>Number(lamports)\<close> gives for a 64-bit amount and what the sum of two such
  doubles gives for their exact sum. \<open>excess_bits n\<close> is the number of low bits that do
  not fit into the significand. (Sums stay far below the largest double.)
\<close>

fun excess_bits :: "nat \<Rightarrow> nat" where
  "excess_bits n = (if n < 9007199254740992 then 0 else Suc (excess_bits (n div 2)))"

declare excess_bits.simps [simp del]

definition to_double :: "nat \<Rightarrow> nat" where
  "to_double n =
     (let e = excess_bits n; q = n div 2 ^ e; r = n mod 2 ^ e in
      if 2 * r > 2 ^ e \<or> (2 * r = 2 ^ e \<and> q mod 2 = 1) then (q + 1) * 2 ^ e else q * 2 ^ e)"

text \<open>
  \<open>amount\<close> is \<open>Number(lamports)\<close>. Its quotient by \<open>10^9\<close> is compared with the
  threshold as the real number it denotes: the conversion is exact below \<open>2^53\<close>, the
  threshold of \<open>10^11\<close> lamports lies far below that, and the correctly rounded quotient
  of an integer below the threshold stays below \<open>100\<close>.
\<close>

record transfer =
  amount :: nat
  from_account :: string
  to_account :: string

definition parseTransferInstruction :: "grpc_instruction \<Rightarrow> byte list list \<Rightarrow> transfer option" where
  "parseTransferInstruction instruction keys =
     (let dat = data instruction in
      if length dat < 12 then None
      else case readUInt32LE dat 0 of
        Inl e \<Rightarrow> None
      | Inr instructionType \<Rightarrow>
          if instructionType \<noteq> 2 then None
          else case readBigUInt64LE dat 4 of
            Inl e \<Rightarrow> None
          | Inr lamports \<Rightarrow>
              (let accountIndices = map unat (accounts instruction) in
               if length accountIndices < 2 then None
               else case encode_key keys (accountIndices ! 0) of
                 Inl e \<Rightarrow> None
               | Inr fromAccount \<Rightarrow>
                   (case encode_key keys (accountIndices ! 1) of
                      Inl e \<Rightarrow> None
                    | Inr toAccount \<Rightarrow>
                        Some \<lparr> amount = to_double lamports, from_account = fromAccount,
                               to_account = toAccount \<rparr>)))"

record displayed_transfer =
  shown :: transfer
  transfer_signature :: string
  transfer_slot :: nat

record transfer_monitor =
  totalTransfers :: nat
  totalVolume :: nat
  largestTransfer :: nat
  largestTransferTx :: "string option"
  alerts :: "displayed_transfer list"
  pongs_answered :: "nat list"

definition displayTransfer :: "transfer \<Rightarrow> string \<Rightarrow> nat \<Rightarrow> transfer_monitor \<Rightarrow> transfer_monitor" where
  "displayTransfer transferData sg sl st =
     (let st1 = st\<lparr> totalTransfers := totalTransfers st + 1,
                       totalVolume := to_double (totalVolume st + amount transferData) \<rparr>;
          st2 = (if amount transferData > largestTransfer st1
                 then st1\<lparr> largestTransfer := amount transferData, largestTransferTx := Some sg \<rparr>
                 else st1)
      in st2\<lparr> alerts := alerts st2 @
            [\<lparr> shown = transferData, transfer_signature = sg, transfer_slot = sl \<rparr>] \<rparr>)"

text \<open>The loop over the instructions of one transaction.\<close>

fun checkTransfers ::
  "grpc_transaction \<Rightarrow> string \<Rightarrow> grpc_instruction list \<Rightarrow> transfer_monitor \<Rightarrow> transfer_monitor" where
  "checkTransfers tx sg [] st = st"
| "checkTransfers tx sg (instruction # rest) st =
     (case encode_key (accountKeys tx) (programIdIndex instruction) of
        Inl e \<Rightarrow> st
      | Inr pid \<Rightarrow>
          if pid \<noteq> SYSTEM_PROGRAM then checkTransfers tx sg rest st
          else (case parseTransferInstruction instruction (accountKeys tx) of
                  None \<Rightarrow> checkTransfers tx sg rest st
                | Some transferData \<Rightarrow>
                    (let solAmount = real (amount transferData) / 1000000000 in
                     if solAmount \<ge> MIN_TRANSFER_AMOUNT
                     then checkTransfers tx sg rest
                            (displayTransfer transferData sg (slot tx) st)
                     else checkTransfers tx sg rest st)))"

text \<open>The \<open>data\<close> handler of \<open>monitorHighValueTransfers\<close>.\<close>

definition onTransferData :: "grpc_update \<Rightarrow> transfer_monitor \<Rightarrow> transfer_monitor" where
  "onTransferData msg st =
     (case pong msg of
        Some ident \<Rightarrow> st\<lparr> pongs_answered := pongs_answered st @ [ident] \<rparr>
      | None \<Rightarrow>
          (case (transaction msg, filters msg) of
             (Some tx, Some fs) \<Rightarrow>
               if ''sol_transfers'' \<in> set fs
               then checkTransfers tx (bs58_encode (signature tx)) (instructions tx) st
               else st
           | _ \<Rightarrow> st))"

section \<open>The whale tracker (class HyperliquidWhaleTracker)\<close>

text \<open>
  Prices, sizes and values are JavaScript numbers. They are a type \<open>'a\<close> with an
  order, a sum and a product of which nothing is assumed but that the order is linear
  (the numbers that \<open>parseFloat\<close> gives for the feed's decimal texts; \<open>NaN\<close> is not one
  of them). Times are milliseconds, as \<open>Date.now()\<close> gives them.
\<close>

record 'a config =
  HYPEREVM_WSS :: "string option"
  WHALE_THRESHOLD_USD :: 'a
  WHALE_THRESHOLD_SIZE :: 'a
  TELEGRAM_BOT_TOKEN :: string
  TELEGRAM_CHAT_ID :: string
  TELEGRAM_BATCH_ALERTS :: bool
  TELEGRAM_BATCH_INTERVAL :: nat
  TRACKED_SYMBOLS :: "string list"

text \<open>
  How \<open>CONFIG\<close> reads the two batching settings from the environment: batching is on
  unless the variable is the text \<open>false\<close>, and an interval that is unset or \<open>0\<close> is
  \<open>60 * 10000\<close> milliseconds.
\<close>

definition BATCH_ALERTS_setting :: "string option \<Rightarrow> bool" where
  "BATCH_ALERTS_setting v = (v \<noteq> Some ''false'')"

definition BATCH_INTERVAL_setting :: "nat option \<Rightarrow> nat" where
  "BATCH_INTERVAL_setting v =
     (case v of None \<Rightarrow> 60 * 10000 | Some n \<Rightarrow> if n = 0 then 60 * 10000 else n)"

text \<open>A trade of the feed; \<open>px\<close> and \<open>sz\<close> stand for \<open>parseFloat(px)\<close> and \<open>parseFloat(sz)\<close>.\<close>

record 'a trade =
  coin :: string
  side :: string
  px :: 'a
  sz :: 'a
  time :: int
  user :: "string option"
  hash :: "string option"
  tid :: "nat option"

record 'a whale =
  address :: string
  totalVolume :: 'a
  tradeCount :: nat
  firstSeen :: int
  lastSeen :: int
  coins :: "string set"

text \<open>The object \<open>analyzeTrade\<close> hands to \<open>notifyWhaleTrade\<close>.\<close>

record 'a trade_alert =
  alert_coin :: string
  alert_side :: string
  alert_price :: 'a
  alert_size :: 'a
  alert_value :: 'a
  alert_time :: int
  alert_user :: string
  alert_hash :: "string option"
  alert_tradeId :: "nat option"

text \<open>An entry of \<open>pendingAlerts\<close>, with the fields \<open>sendBatchedAlerts\<close> reads.\<close>

record 'a pending_alert =
  pending_value :: 'a
  pending_user :: "string option"
  pending_emoji :: string
  pending_sideText :: string
  pending_coin :: string

text \<open>
  A Telegram text is kept as what it is built from: the alert of one trade, or the
  batch with its number of trades, its total value and its entries.
\<close>

datatype 'a telegram_text =
  TradeText "'a trade_alert"
| BatchText nat 'a "'a pending_alert list"

text \<open>
  The tracker object. Three components are not fields of the class: \<open>console\<close> (the
  alerts printed), \<open>inFlight\<close> (the local \<open>message\<close> of the running
  \<open>processTelegramQueue\<close>, between its \<open>shift\<close> and the end of the call) and \<open>posted\<close>
  (the texts given to \<open>fetch\<close>, each with the time of the call).
\<close>

record 'a tracker =
  reconnectAttempts :: nat
  maxReconnectAttempts :: nat
  whaleAddresses :: "string \<rightharpoonup> 'a whale"
  tradeCount :: nat
  telegramQueue :: "'a telegram_text list"
  isSendingTelegram :: bool
  lastTelegramSent :: int
  TELEGRAM_DELAY :: int
  pendingAlerts :: "'a pending_alert list"
  batchTimer :: "nat option"
  console :: "'a telegram_text list"
  inFlight :: "'a telegram_text option"
  posted :: "(int \<times> 'a telegram_text) list"

definition new_tracker :: "'a tracker" where
  "new_tracker = \<lparr> reconnectAttempts = 0, maxReconnectAttempts = 5, whaleAddresses = Map.empty,
     tradeCount = 0, telegramQueue = [], isSendingTelegram = False, lastTelegramSent = 0,
     TELEGRAM_DELAY = 1500, pendingAlerts = [], batchTimer = None, console = [],
     inFlight = None, posted = [] \<rparr>"

subsection \<open>The two connections\<close>

text \<open>The \<open>open\<close> handlers installed by \<open>connectHyperEVM\<close> and \<open>connectHyperliquidInfo\<close>.\<close>

definition connectHyperEVM_open :: "'a tracker \<Rightarrow> 'a tracker" where
  "connectHyperEVM_open s = s\<lparr> reconnectAttempts := 0 \<rparr>"

definition connectHyperliquidInfo_open :: "'a tracker \<Rightarrow> 'a tracker" where
  "connectHyperliquidInfo_open s = s"

datatype reconnect_action = ConnectHyperEVMAfter nat | ConnectHyperliquidInfoAfter nat | GiveUp

definition handleReconnect :: "string \<Rightarrow> 'a tracker \<Rightarrow> 'a tracker \<times> reconnect_action" where
  "handleReconnect connection s =
     (if reconnectAttempts s < maxReconnectAttempts s then
        (let s1 = s\<lparr> reconnectAttempts := reconnectAttempts s + 1 \<rparr>;
             delay = min (1000 * 2 ^ reconnectAttempts s1) 30000
         in (s1, if connection = ''hyperevm'' then ConnectHyperEVMAfter delay
                 else ConnectHyperliquidInfoAfter delay))
      else (s, GiveUp))"

text \<open>The \<open>close\<close> handlers of the two connections.\<close>

definition connectHyperEVM_close :: "'a tracker \<Rightarrow> 'a tracker \<times> reconnect_action" where
  "connectHyperEVM_close s = handleReconnect ''hyperevm'' s"

definition connectHyperliquidInfo_close :: "'a tracker \<Rightarrow> 'a tracker \<times> reconnect_action" where
  "connectHyperliquidInfo_close s = handleReconnect ''hyperliquid'' s"

text \<open>The Hyperliquid Info connection closes, and the reconnect that follows opens.\<close>

definition reopened :: "'a tracker \<Rightarrow> 'a tracker" where
  "reopened s = connectHyperliquidInfo_open (fst (connectHyperliquidInfo_close s))"

text \<open>\<open>n\<close> closes of one connection in a row; what \<open>handleReconnect\<close> asks for, in order.\<close>

fun reconnects :: "nat \<Rightarrow> string \<Rightarrow> 'a tracker \<Rightarrow> reconnect_action list" where
  "reconnects 0 connection s = []"
| "reconnects (Suc n) connection s =
     (case handleReconnect connection s of (s', a) \<Rightarrow> a # reconnects n connection s')"

subsection \<open>The Telegram queue\<close>

text \<open>
  \<open>processTelegramQueue\<close> up to the call of \<open>fetch\<close>, run at time \<open>now\<close>: the next text
  is taken from the queue and posted once \<open>TELEGRAM_DELAY\<close> has passed since the last
  answer.
\<close>

definition processTelegramQueue :: "int \<Rightarrow> 'a tracker \<Rightarrow> 'a tracker" where
  "processTelegramQueue now s =
     (case telegramQueue s of
        [] \<Rightarrow> s\<lparr> isSendingTelegram := False \<rparr>
      | msg # rest \<Rightarrow>
          (let timeSinceLastSend = now - lastTelegramSent s;
               sendAt = (if timeSinceLastSend < TELEGRAM_DELAY s
                         then now + (TELEGRAM_DELAY s - timeSinceLastSend) else now)
           in s\<lparr> isSendingTelegram := True, telegramQueue := rest, inFlight := Some msg,
                 posted := posted s @ [(sendAt, msg)] \<rparr>))"

text \<open>
  What \<open>fetch\<close> comes back with: it throws, the answer is \<open>ok\<close>, or it is not, with its
  status and either a body that \<open>response.json()\<close> cannot read or the
  \<open>parameters.retry_after\<close> of the body (in seconds, when there is one).
\<close>

datatype sink_reply = FetchThrows | ReplyOk | ReplyUnreadable nat | ReplyError nat "nat option"

text \<open>
  The rest of \<open>processTelegramQueue\<close>, from the moment \<open>t\<close> at which \<open>fetch\<close> settles.
  The result is the new state and the time for which the next call of
  \<open>processTelegramQueue\<close> is scheduled; a timer fires once the delay it was given has
  passed, and reading the body of the answer takes no time. \<open>retry_after || 5\<close> makes a
  missing or zero \<open>retry_after\<close> five seconds. \<open>sendTelegramMessage\<close> only appends to the queue while a
  call is running, so a text that arrives during the waits is the same appended before
  or after this step.
\<close>

definition processTelegramQueue_settled ::
  "int \<Rightarrow> sink_reply \<Rightarrow> 'a tracker \<Rightarrow> 'a tracker \<times> int" where
  "processTelegramQueue_settled t reply s =
     (case inFlight s of
        None \<Rightarrow> (s, t)
      | Some msg \<Rightarrow>
          (case reply of
             FetchThrows \<Rightarrow> (s\<lparr> inFlight := None \<rparr>, t + TELEGRAM_DELAY s)
           | ReplyOk \<Rightarrow>
               (s\<lparr> lastTelegramSent := t, inFlight := None \<rparr>, t + TELEGRAM_DELAY s)
           | ReplyUnreadable status \<Rightarrow>
               (s\<lparr> lastTelegramSent := t, inFlight := None \<rparr>, t + TELEGRAM_DELAY s)
           | ReplyError status retry_after \<Rightarrow>
               if status = 429 then
                 (let retryAfter = (case retry_after of
                                      None \<Rightarrow> 5
                                    | Some r \<Rightarrow> if r = 0 then 5 else r);
                      resumed = t + int retryAfter * 1000
                  in (s\<lparr> lastTelegramSent := t, telegramQueue := msg # telegramQueue s,
                         inFlight := None \<rparr>,
                      resumed + TELEGRAM_DELAY s))
               else (s\<lparr> lastTelegramSent := t, inFlight := None \<rparr>, t + TELEGRAM_DELAY s)))"

definition sendTelegramMessage :: "'a config \<Rightarrow> int \<Rightarrow> 'a telegram_text \<Rightarrow> 'a tracker \<Rightarrow> 'a tracker" where
  "sendTelegramMessage cfg now msg s =
     (if TELEGRAM_BOT_TOKEN cfg = [] \<or> TELEGRAM_CHAT_ID cfg = [] then s
      else (let s1 = s\<lparr> telegramQueue := telegramQueue s @ [msg] \<rparr> in
            if isSendingTelegram s1 then s1 else processTelegramQueue now s1))"

definition sendBatchedAlerts :: "'a::{zero,plus} config \<Rightarrow> int \<Rightarrow> 'a tracker \<Rightarrow> 'a tracker" where
  "sendBatchedAlerts cfg now s =
     (if pendingAlerts s = [] then s\<lparr> batchTimer := None \<rparr>
      else (let totalValue = foldl (\<lambda>sum alert. sum + pending_value alert) 0 (pendingAlerts s);
                trades = length (pendingAlerts s);
                s1 = sendTelegramMessage cfg now (BatchText trades totalValue (pendingAlerts s)) s
            in s1\<lparr> pendingAlerts := [], batchTimer := None \<rparr>))"

subsection \<open>Trades\<close>

definition trackWhaleAddress :: "int \<Rightarrow> string \<Rightarrow> 'a::plus \<Rightarrow> string \<Rightarrow> 'a tracker \<Rightarrow> 'a tracker" where
  "trackWhaleAddress now addr v c s =
     (case whaleAddresses s addr of
        Some w \<Rightarrow>
          s\<lparr> whaleAddresses := (whaleAddresses s)(addr \<mapsto>
               w\<lparr> totalVolume := totalVolume w + v, whale.tradeCount := whale.tradeCount w + 1,
                  lastSeen := now, coins := insert c (coins w) \<rparr>) \<rparr>
      | None \<Rightarrow>
          s\<lparr> whaleAddresses := (whaleAddresses s)(addr \<mapsto>
               \<lparr> address = addr, totalVolume = v, whale.tradeCount = 1, firstSeen = now,
                 lastSeen = now, coins = {c} \<rparr>) \<rparr>)"

definition notifyWhaleTrade :: "'a config \<Rightarrow> int \<Rightarrow> 'a trade_alert \<Rightarrow> 'a tracker \<Rightarrow> 'a tracker" where
  "notifyWhaleTrade cfg now alert s =
     (let s1 = s\<lparr> console := console s @ [TradeText alert] \<rparr> in
      if TELEGRAM_BOT_TOKEN cfg \<noteq> [] \<and> TELEGRAM_CHAT_ID cfg \<noteq> []
      then sendTelegramMessage cfg now (TradeText alert) s1 else s1)"

definition analyzeTrade :: "'a::{plus,times,linorder} config \<Rightarrow> int \<Rightarrow> 'a trade \<Rightarrow> 'a tracker \<Rightarrow> 'a tracker" where
  "analyzeTrade cfg now trade s =
     (let price = px trade; size = sz trade; v = price * size in
      if v \<ge> WHALE_THRESHOLD_USD cfg \<or> size \<ge> WHALE_THRESHOLD_SIZE cfg then
        (let s1 = (case user trade of
                     None \<Rightarrow> s
                   | Some u \<Rightarrow> if u \<noteq> [] \<and> u \<noteq> ''Unknown''
                               then trackWhaleAddress now u v (coin trade) s else s);
             s2 = notifyWhaleTrade cfg now
                    \<lparr> alert_coin = coin trade, alert_side = side trade, alert_price = price,
                      alert_size = size, alert_value = v, alert_time = time trade,
                      alert_user = (case user trade of None \<Rightarrow> ''Unknown''
                                    | Some u \<Rightarrow> if u = [] then ''Unknown'' else u),
                      alert_hash = (case hash trade of None \<Rightarrow> None
                                    | Some h \<Rightarrow> if h = [] then None else Some h),
                      alert_tradeId = (case tid trade of None \<Rightarrow> None
                                       | Some n \<Rightarrow> if n = 0 then None else Some n) \<rparr> s1
         in s2\<lparr> tradeCount := tradeCount s2 + 1 \<rparr>)
      else s)"

text \<open>The trades of one \<open>trades\<close> frame, in order.\<close>

definition analyzeTrades :: "'a::{plus,times,linorder} config \<Rightarrow> int \<Rightarrow> 'a trade list \<Rightarrow> 'a tracker \<Rightarrow> 'a tracker" where
  "analyzeTrades cfg now trades s = foldl (\<lambda>st trade. analyzeTrade cfg now trade st) s trades"

text \<open>Everything given to the sink or waiting for it, oldest first.\<close>

definition handed_over :: "'a tracker \<Rightarrow> 'a telegram_text list" where
  "handed_over s = map snd (posted s) @ telegramQueue s"

section \<open>Inputs for the monitors\<close>

text \<open>The 32 bytes of the Pump.fun program address.\<close>

definition pumpfun_key :: "byte list" where
  "pumpfun_key = [1, 86, 224, 246, 147, 102, 90, 207, 68, 219, 21, 104, 191, 23, 91, 170, 81,
     137, 203, 151, 245, 210, 255, 59, 101, 93, 43, 182, 253, 109, 24, 176]"

text \<open>
  A create instruction for the token \<open>Foo\<close> (symbol \<open>FOO\<close>, uri \<open>ipfs://x\<close>) with eight
  accounts, in a transaction that the provider reports as failed.
\<close>

definition create_data :: "byte list" where
  "create_data = [24, 30, 200, 40, 5, 28, 7, 119,
     3, 0, 0, 0, 70, 111, 111,
     3, 0, 0, 0, 70, 79, 79,
     8, 0, 0, 0, 105, 112, 102, 115, 58, 47, 47, 120]"

definition mint_keys :: "byte list list" where
  "mint_keys = [[10], [11], [12], [13], [14], [15], [16], [17], pumpfun_key]"

definition failed_create_tx :: grpc_transaction where
  "failed_create_tx = \<lparr> signature = [1], slot = 7, accountKeys = mint_keys,
     instructions = [\<lparr> programIdIndex = 8, accounts = [0, 1, 2, 3, 4, 5, 6, 7],
                       data = create_data \<rparr>],
     meta_err = Some ''InstructionError'' \<rparr>"

definition failed_create_update :: grpc_update where
  "failed_create_update = \<lparr> pong = None, transaction = Some failed_create_tx,
     filters = Some [''pumpfun''] \<rparr>"

definition new_mint_monitor :: "string mint_monitor" where
  "new_mint_monitor = \<lparr> totalMints = 0, displayed = [], pings = [] \<rparr>"

text \<open>An instruction of the Pump.fun program whose payload is the first 7 bytes of the discriminator.\<close>

definition short_instruction :: grpc_instruction where
  "short_instruction = \<lparr> programIdIndex = 8, accounts = [], data = [24, 30, 200, 40, 5, 28, 7] \<rparr>"

text \<open>The same payload in an instruction whose program index points past the nine account keys.\<close>

definition stray_instruction :: grpc_instruction where
  "stray_instruction = \<lparr> programIdIndex = 9, accounts = [], data = [24, 30, 200, 40, 5, 28, 7] \<rparr>"

text \<open>
  A transfer of the System Program (whose address is 32 zero bytes) from account 0 to
  account 1; the payload is the instruction type 2 and the lamports, both little-endian.
  \<open>hundred_sol\<close> is 100000000000 lamports, \<open>below_hundred_sol\<close> one lamport less.
\<close>

definition system_key :: "byte list" where
  "system_key = replicate 32 0"

definition transfer_keys :: "byte list list" where
  "transfer_keys = [[10], [11], system_key]"

definition hundred_sol :: "byte list" where
  "hundred_sol = [0, 232, 118, 72, 23, 0, 0, 0]"

definition below_hundred_sol :: "byte list" where
  "below_hundred_sol = [255, 231, 118, 72, 23, 0, 0, 0]"

definition transfer_instruction :: "byte list \<Rightarrow> grpc_instruction" where
  "transfer_instruction lamports =
     \<lparr> programIdIndex = 2, accounts = [0, 1], data = [2, 0, 0, 0] @ lamports \<rparr>"

definition transfer_tx :: "byte list \<Rightarrow> grpc_transaction" where
  "transfer_tx lamports = \<lparr> signature = [1], slot = 9, accountKeys = transfer_keys,
     instructions = [transfer_instruction lamports], meta_err = None \<rparr>"

definition new_transfer_monitor :: transfer_monitor where
  "new_transfer_monitor = \<lparr> totalTransfers = 0, totalVolume = 0, largestTransfer = 0,
     largestTransferTx = None, alerts = [], pongs_answered = [] \<rparr>"

text \<open>
  The tracker with its default thresholds and batching left on, Telegram configured;
  a trade worth exactly the threshold, one worth one unit less, and one worth one unit
  less whose size reaches the size threshold.
\<close>

definition example_config :: "real config" where
  "example_config = \<lparr> HYPEREVM_WSS = None, WHALE_THRESHOLD_USD = 100000,
     WHALE_THRESHOLD_SIZE = 50, TELEGRAM_BOT_TOKEN = ''token'', TELEGRAM_CHAT_ID = ''chat'',
     TELEGRAM_BATCH_ALERTS = BATCH_ALERTS_setting None,
     TELEGRAM_BATCH_INTERVAL = BATCH_INTERVAL_setting None,
     TRACKED_SYMBOLS = [''BTC'', ''ETH'', ''SOL'', ''ARB'', ''AVAX'', ''HYPE''] \<rparr>"

definition example_trade :: "real \<Rightarrow> real \<Rightarrow> real trade" where
  "example_trade price size_of_trade = \<lparr> coin = ''BTC'', side = ''B'', px = price,
     sz = size_of_trade, time = 1700000000000, user = Some ''0xabc'', hash = Some ''0xh'',
     tid = Some 1 \<rparr>"

definition example_alert :: "real \<Rightarrow> real \<Rightarrow> real trade_alert" where
  "example_alert price size_of_trade = \<lparr> alert_coin = ''BTC'', alert_side = ''B'',
     alert_price = price, alert_size = size_of_trade, alert_value = price * size_of_trade,
     alert_time = 1700000000000, alert_user = ''0xabc'', alert_hash = Some ''0xh'',
     alert_tradeId = Some 1 \<rparr>"

section \<open>Reconnection\<close>

lemma delay_mono: "m \<le> n \<Longrightarrow> min (1000 * 2 ^ m) (30000::nat) \<le> min (1000 * 2 ^ n) 30000"
proof -
  assume "m \<le> n"
  then have "(2::nat) ^ m \<le> 2 ^ n" by (simp add: power_increasing)
  then have "1000 * (2::nat) ^ m \<le> 1000 * 2 ^ n" by simp
  then show ?thesis by (simp add: min_le_iff_disj)
qed

lemma delays_sorted: "sorted (map (\<lambda>k. min (1000 * 2 ^ k) (30000::nat)) [a..<b])"
proof -
  have "sorted_wrt (\<lambda>x y. x \<le> y) [a..<b]" by simp
  then have "sorted_wrt (\<lambda>x y. min (1000 * 2 ^ x) (30000::nat) \<le> min (1000 * 2 ^ y) 30000) [a..<b]"
    by (rule sorted_wrt_mono_rel [rotated]) (blast intro: delay_mono)
  then show ?thesis by (simp add: sorted_map)
qed

lemma closes_from:
  "listener.reconnectAttempts s = a \<Longrightarrow> a + n \<le> listener.maxReconnectAttempts s \<Longrightarrow>
   closes n s = map (\<lambda>k. ReconnectAfter (min (1000 * 2 ^ k) 30000)) [Suc a..<Suc (a + n)]"
proof (induction n arbitrary: s a)
  case 0
  then show ?case by simp
next
  case (Suc n)
  let ?s' = "s\<lparr> isConnected := False, listener.reconnectAttempts := Suc a \<rparr>"
  have hc: "handleClose s = (?s', ReconnectAfter (min (1000 * 2 ^ Suc a) 30000))"
    using Suc.prems by (simp add: handleClose_def Let_def)
  have "closes n ?s' = map (\<lambda>k. ReconnectAfter (min (1000 * 2 ^ k) 30000)) [Suc (Suc a)..<Suc (Suc a + n)]"
    using Suc.prems by (intro Suc.IH) simp_all
  moreover have "[Suc a..<Suc (a + Suc n)] = Suc a # [Suc (Suc a)..<Suc (Suc a + n)]"
    by (subst upt_conv_Cons) simp_all
  ultimately show ?case using hc by (simp del: upt_Suc)
qed

lemma reconnects_from:
  "reconnectAttempts s = a \<Longrightarrow> a + n \<le> maxReconnectAttempts s \<Longrightarrow> c \<noteq> ''hyperevm'' \<Longrightarrow>
   reconnects n c s = map (\<lambda>k. ConnectHyperliquidInfoAfter (min (1000 * 2 ^ k) 30000)) [Suc a..<Suc (a + n)]"
proof (induction n arbitrary: s a)
  case 0
  then show ?case by simp
next
  case (Suc n)
  let ?s' = "s\<lparr> reconnectAttempts := Suc a \<rparr>"
  have hc: "handleReconnect c s = (?s', ConnectHyperliquidInfoAfter (min (1000 * 2 ^ Suc a) 30000))"
    using Suc.prems by (simp add: handleReconnect_def Let_def)
  have "reconnects n c ?s' = map (\<lambda>k. ConnectHyperliquidInfoAfter (min (1000 * 2 ^ k) 30000)) [Suc (Suc a)..<Suc (Suc a + n)]"
    using Suc.prems by (intro Suc.IH) simp_all
  moreover have "[Suc a..<Suc (a + Suc n)] = Suc a # [Suc (Suc a)..<Suc (Suc a + n)]"
    by (subst upt_conv_Cons) simp_all
  ultimately show ?case using hc by (simp del: upt_Suc)
qed

lemma reconnects_evm_from:
  "reconnectAttempts s = a \<Longrightarrow> a + n \<le> maxReconnectAttempts s \<Longrightarrow>
   reconnects n ''hyperevm'' s = map (\<lambda>k. ConnectHyperEVMAfter (min (1000 * 2 ^ k) 30000)) [Suc a..<Suc (a + n)]"
proof (induction n arbitrary: s a)
  case 0
  then show ?case by simp
next
  case (Suc n)
  let ?s' = "s\<lparr> reconnectAttempts := Suc a \<rparr>"
  have hc: "handleReconnect ''hyperevm'' s = (?s', ConnectHyperEVMAfter (min (1000 * 2 ^ Suc a) 30000))"
    using Suc.prems by (simp add: handleReconnect_def Let_def)
  have "reconnects n ''hyperevm'' ?s' = map (\<lambda>k. ConnectHyperEVMAfter (min (1000 * 2 ^ k) 30000)) [Suc (Suc a)..<Suc (Suc a + n)]"
    using Suc.prems by (intro Suc.IH) simp_all
  moreover have "[Suc a..<Suc (a + Suc n)] = Suc a # [Suc (Suc a)..<Suc (Suc a + n)]"
    by (subst upt_conv_Cons) simp_all
  ultimately show ?case using hc by (simp del: upt_Suc)
qed

text \<open>
  Claim C6. From a counter at zero, the \<open>n\<close>-th close in a row (\<open>n\<close> up to the maximum
  attempt count) asks for a reconnect after \<open>min (1000 * 2^n) 30000\<close> milliseconds, in the
  listener and for both connections of the tracker; the delays of attempts \<open>1..n\<close> are
  non-decreasing and none exceeds the cap of 30000.
\<close>

theorem reconnect_delay_sequence:
  assumes "listener.reconnectAttempts s = 0" and "n \<le> listener.maxReconnectAttempts s"
    and "reconnectAttempts t = 0" and "n \<le> maxReconnectAttempts t"
  shows "closes n s = map (\<lambda>k. ReconnectAfter (min (1000 * 2 ^ k) 30000)) [1..<Suc n]
       \<and> reconnects n ''hyperevm'' t = map (\<lambda>k. ConnectHyperEVMAfter (min (1000 * 2 ^ k) 30000)) [1..<Suc n]
       \<and> reconnects n ''hyperliquid'' t = map (\<lambda>k. ConnectHyperliquidInfoAfter (min (1000 * 2 ^ k) 30000)) [1..<Suc n]
       \<and> sorted (map (\<lambda>k. min (1000 * 2 ^ k) (30000::nat)) [1..<Suc n])
       \<and> list_all (\<lambda>d. d \<le> 30000) (map (\<lambda>k. min (1000 * 2 ^ k) (30000::nat)) [1..<Suc n])"
proof -
  have a: "closes n s = map (\<lambda>k. ReconnectAfter (min (1000 * 2 ^ k) 30000)) [1..<Suc n]"
    using closes_from [of s 0 n] assms(1,2) by simp
  have b: "reconnects n ''hyperevm'' t = map (\<lambda>k. ConnectHyperEVMAfter (min (1000 * 2 ^ k) 30000)) [1..<Suc n]"
    using reconnects_evm_from [of t 0 n] assms(3,4) by simp
  have c: "reconnects n ''hyperliquid'' t = map (\<lambda>k. ConnectHyperliquidInfoAfter (min (1000 * 2 ^ k) 30000)) [1..<Suc n]"
    using reconnects_from [of t 0 n "''hyperliquid''"] assms(3,4) by simp
  have d: "list_all (\<lambda>d. d \<le> 30000) (map (\<lambda>k. min (1000 * 2 ^ k) (30000::nat)) [1..<Suc n])"
    by (simp add: list_all_iff)
  show ?thesis using a b c d delays_sorted [of 1 "Suc n"] by blast
qed

text \<open>The first five closes of a fresh listener and of a fresh tracker.\<close>

theorem reconnect_delay_sequence_witness:
  "listener.reconnectAttempts new_listener = 0 \<and> 5 \<le> listener.maxReconnectAttempts new_listener
   \<and> reconnectAttempts (new_tracker :: real tracker) = 0
   \<and> 5 \<le> maxReconnectAttempts (new_tracker :: real tracker)
   \<and> closes 5 new_listener = map ReconnectAfter [2000, 4000, 8000, 16000, 30000]
   \<and> reconnects 5 ''hyperevm'' (new_tracker :: real tracker)
       = map ConnectHyperEVMAfter [2000, 4000, 8000, 16000, 30000]
   \<and> reconnects 5 ''hyperliquid'' (new_tracker :: real tracker)
       = map ConnectHyperliquidInfoAfter [2000, 4000, 8000, 16000, 30000]
   \<and> sorted [2000, 4000, 8000, 16000, 30000 :: nat]"
proof -
  have u: "[1..<Suc 5] = [1, 2, 3, 4, 5]" by (simp add: upt_conv_Cons)
  have h: "listener.reconnectAttempts new_listener = 0" "5 \<le> listener.maxReconnectAttempts new_listener"
    "reconnectAttempts (new_tracker :: real tracker) = 0"
    "5 \<le> maxReconnectAttempts (new_tracker :: real tracker)"
    by (simp_all add: new_listener_def new_tracker_def)
  show ?thesis
    using reconnect_delay_sequence [OF h, unfolded u] h by simp
qed

text \<open>
  Claim C5, evaluated on the tracker. The \<open>open\<close> handler of the Hyperliquid Info
  connection leaves the counter as it is: after one close and a successful reopen the
  counter is 1 and the next close waits 4000 ms instead of the first delay of 2000 ms,
  and after five closes, each followed by a successful reopen, the sixth close no longer
  reconnects. The \<open>open\<close> handler of the HyperEVM connection and \<open>handleOpen\<close> of the
  listener do reset the counter.
\<close>

theorem hyperliquid_open_keeps_attempts:
  "reconnectAttempts (reopened (new_tracker :: real tracker)) = 1
   \<and> snd (connectHyperliquidInfo_close (reopened (new_tracker :: real tracker)))
     = ConnectHyperliquidInfoAfter 4000
   \<and> snd (connectHyperliquidInfo_close
         (reopened (reopened (reopened (reopened (reopened (new_tracker :: real tracker)))))))
     = GiveUp
   \<and> reconnectAttempts (connectHyperEVM_open
      (fst (connectHyperEVM_close (new_tracker :: real tracker)))) = 0
   \<and> listener.reconnectAttempts (handleOpen (fst (handleClose new_listener))) = 0"
  by (simp add: reopened_def connectHyperliquidInfo_open_def connectHyperliquidInfo_close_def
      connectHyperEVM_open_def connectHyperEVM_close_def handleReconnect_def new_tracker_def
      handleOpen_def handleClose_def new_listener_def Let_def)

section \<open>The migration listener: fetches and events\<close>

lemma fetched_fetchAndProcessTransaction:
  "fetched (fetchAndProcessTransaction rpc sg s) = fetched s @ [sg]"
  by (simp add: fetchAndProcessTransaction_def Let_def split: sum.splits option.splits migration.splits)

lemma migrations_fetchAndProcessTransaction:
  "migrations (fetchAndProcessTransaction rpc sg s) =
     migrations s @ (case rpc sg of
                       Inr (Some tx) \<Rightarrow> (case extractMigrationData tx sg of None \<Rightarrow> [] | Some m \<Rightarrow> [m])
                     | _ \<Rightarrow> [])"
  by (simp add: fetchAndProcessTransaction_def Let_def split: sum.splits option.splits migration.splits)

lemma fetched_handleMessage:
  "fetched (handleMessage rpc frame s) = fetched s @ fetch_requests [frame]"
  by (cases frame)
     (simp_all add: handleMessage_def processLog_def fetch_requests_def Let_def
        fetched_fetchAndProcessTransaction)

lemma fetch_requests_Cons:
  "fetch_requests (frame # frames) = fetch_requests [frame] @ fetch_requests frames"
  by (simp add: fetch_requests_def)

lemma fetched_handleMessages:
  "fetched (handleMessages rpc frames s) = fetched s @ fetch_requests frames"
proof (induction frames arbitrary: s)
  case Nil
  show ?case by (simp add: handleMessages_def fetch_requests_def)
next
  case (Cons frame frames)
  have "handleMessages rpc (frame # frames) s = handleMessages rpc frames (handleMessage rpc frame s)"
    by (simp add: handleMessages_def)
  then show ?case
    using Cons.IH [of "handleMessage rpc frame s"]
    by (simp add: fetched_handleMessage fetch_requests_Cons [of frame frames])
qed

lemma checkInstructions_ignores_status:
  "checkInstructions utf8 (tx\<lparr> meta_err := e \<rparr>) sg i ins st = checkInstructions utf8 tx sg i ins st"
  by (induction ins arbitrary: i st)
     (simp_all add: extractAccounts_def split: sum.splits bool.splits option.splits)

lemma checkTransfers_ignores_status:
  "checkTransfers (tx\<lparr> meta_err := e \<rparr>) sg ins st = checkTransfers tx sg ins st"
  by (induction ins arbitrary: st) (simp_all add: Let_def split: sum.splits option.splits)

text \<open>
  Claim C1, as amended. A log notification that carries an error only advances the log
  counter of the listener: no transaction is fetched and no migration is recorded or
  counted. The handlers of the two gRPC monitors do not depend on the failure status of
  the transaction they are given.
\<close>

theorem failed_log_is_skipped:
  assumes "log_value.err v = Some e"
  shows "handleMessage rpc (LogsNotification v) s
           = s\<lparr> totalLogsReceived := totalLogsReceived s + 1 \<rparr>
       \<and> fetched (handleMessage rpc (LogsNotification v) s) = fetched s
       \<and> migrations (handleMessage rpc (LogsNotification v) s) = migrations s
       \<and> onMintData decoder (u\<lparr> transaction := Some (tx\<lparr> meta_err := status \<rparr>) \<rparr>) st
           = onMintData decoder (u\<lparr> transaction := Some tx \<rparr>) st
       \<and> onTransferData (u\<lparr> transaction := Some (tx\<lparr> meta_err := status \<rparr>) \<rparr>) ts
           = onTransferData (u\<lparr> transaction := Some tx \<rparr>) ts"
proof -
  have a: "handleMessage rpc (LogsNotification v) s
             = s\<lparr> totalLogsReceived := totalLogsReceived s + 1 \<rparr>"
    using assms by (simp add: handleMessage_def processLog_def Let_def)
  have b: "onMintData decoder (u\<lparr> transaction := Some (tx\<lparr> meta_err := status \<rparr>) \<rparr>) st
             = onMintData decoder (u\<lparr> transaction := Some tx \<rparr>) st"
    by (simp add: onMintData_def checkInstructions_ignores_status split: option.splits)
  have c: "onTransferData (u\<lparr> transaction := Some (tx\<lparr> meta_err := status \<rparr>) \<rparr>) ts
             = onTransferData (u\<lparr> transaction := Some tx \<rparr>) ts"
    by (simp add: onTransferData_def checkTransfers_ignores_status split: option.splits)
  show ?thesis using a b c by simp
qed

text \<open>
  Claim C4, as amended. The listener asks one fetch for every notification of a
  succeeded transaction whose logs name a migration, duplicates included: the fetches
  made for a list of frames are exactly its fetch requests, in arrival order.
\<close>

theorem one_fetch_per_delivery:
  "fetched (handleMessages rpc frames s) = fetched s @ fetch_requests frames"
  by (rule fetched_handleMessages)

text \<open>The notification of a failed transaction whose logs name a migration.\<close>

theorem failed_log_is_skipped_witness:
  "log_value.err failed_migrate_log = Some ''InstructionError''
   \<and> hasMigration (logs failed_migrate_log)
   \<and> handleMessage not_found (LogsNotification failed_migrate_log) new_listener
       = new_listener\<lparr> totalLogsReceived := 1 \<rparr>
   \<and> fetched (handleMessage not_found (LogsNotification failed_migrate_log) new_listener) = []"
proof -
  have e: "log_value.err failed_migrate_log = Some ''InstructionError''"
    by (simp add: failed_migrate_log_def)
  have m: "hasMigration (logs failed_migrate_log)"
    by (simp add: failed_migrate_log_def hasMigration_def)
  show ?thesis
    using failed_log_is_skipped [where v = failed_migrate_log and e = "''InstructionError''"
        and rpc = not_found and s = new_listener
        and decoder = ascii_text and u = failed_create_update and tx = failed_create_tx
        and status = None and st = new_mint_monitor and ts = new_transfer_monitor, OF e] e m
    by (simp add: new_listener_def)
qed

text \<open>
  Claim C4 as stated fails: the same notification delivered twice is fetched twice.
\<close>

theorem duplicate_delivery_fetches_twice:
  "fetched (handleMessages not_found
      [LogsNotification migrate_log, LogsNotification migrate_log] new_listener)
   = [''5sig'', ''5sig'']"
proof -
  have m: "hasMigration (logs migrate_log)"
    by (simp add: migrate_log_def hasMigration_def)
  have r: "fetch_requests [LogsNotification migrate_log, LogsNotification migrate_log]
             = [''5sig'', ''5sig'']"
    using m by (simp add: fetch_requests_def migrate_log_def)
  show ?thesis
    by (simp add: fetched_handleMessages r new_listener_def)
qed

section \<open>The migration listener: one event per fetched transaction\<close>

lemma programs_differ: "PUMPFUN_PROGRAM \<noteq> RAYDIUM_PROGRAM"
  by (simp add: PUMPFUN_PROGRAM_def RAYDIUM_PROGRAM_def)

lemma scan_skip:
  "\<not> migrationCandidate ks ins \<Longrightarrow>
   scanInstructions (Some ks) tx sg (ins # rest) = scanInstructions (Some ks) tx sg rest"
  by (auto simp: migrationCandidate_def instructionProgram_def key_at_def Let_def
      split: option.splits)

lemma scan_prefix:
  "list_all (\<lambda>i. \<not> migrationCandidate ks i) pre \<Longrightarrow>
   scanInstructions (Some ks) tx sg (pre @ rest) = scanInstructions (Some ks) tx sg rest"
proof (induction pre)
  case Nil
  show ?case by simp
next
  case (Cons i pre)
  then have "\<not> migrationCandidate ks i" and "list_all (\<lambda>i. \<not> migrationCandidate ks i) pre"
    by simp_all
  then show ?case using Cons.IH scan_skip [of ks i tx sg "pre @ rest"] by simp
qed

lemma scan_candidate:
  "migrationCandidate ks c \<Longrightarrow>
   scanInstructions (Some ks) tx sg (c # post) = scanInstructions (Some ks) tx sg [c]"
  using programs_differ
  by (auto simp: migrationCandidate_def instructionProgram_def key_at_def Let_def
      split: option.splits sum.splits)

text \<open>
  Claim C10. When the instructions before \<open>c\<close> are of other programs (or Raydium
  instructions with fewer than 7 accounts) and \<open>c\<close> is a Raydium instruction with at least
  7 accounts or a Pump.fun instruction, the result of \<open>extractMigrationData\<close> is what
  \<open>c\<close> alone gives, whatever follows \<open>c\<close>; and a fetch records at most one migration.
\<close>

theorem first_candidate_decides:
  assumes "selectedKeys (message tx) = Some ks"
    and "selectedInstructions (message tx) = Some (pre @ c # post)"
    and "list_all (\<lambda>i. \<not> migrationCandidate ks i) pre"
    and "migrationCandidate ks c"
  shows "extractMigrationData tx sg
           = (case scanInstructions (Some ks) tx sg [c] of Inl e \<Rightarrow> None | Inr r \<Rightarrow> r)
       \<and> length (migrations (fetchAndProcessTransaction rpc sg s)) \<le> length (migrations s) + 1"
proof -
  have "scanInstructions (Some ks) tx sg (pre @ c # post) = scanInstructions (Some ks) tx sg [c]"
    using scan_prefix [OF assms(3)] scan_candidate [OF assms(4)] by simp
  then have a: "extractMigrationData tx sg
           = (case scanInstructions (Some ks) tx sg [c] of Inl e \<Rightarrow> None | Inr r \<Rightarrow> r)"
    using assms(1,2) by (simp add: extractMigrationData_def)
  have b: "length (migrations (fetchAndProcessTransaction rpc sg s)) \<le> length (migrations s) + 1"
    by (simp add: migrations_fetchAndProcessTransaction split: sum.splits option.splits)
  show ?thesis using a b by simp
qed

text \<open>
  In the example the Pump.fun instruction comes first and gives the event; the Raydium
  instruction after it is not looked at.
\<close>

theorem first_candidate_decides_witness:
  "selectedKeys (message example_tx) = Some example_keys
   \<and> selectedInstructions (message example_tx)
       = Some ([\<lparr> tx_instruction.programIdIndex = Some 3, programId = None,
                    tx_instruction.accounts = Some [] \<rparr>]
               @ \<lparr> tx_instruction.programIdIndex = Some 4, programId = None,
                    tx_instruction.accounts = Some [0, 1, 2] \<rparr>
               # [\<lparr> tx_instruction.programIdIndex = Some 5, programId = None,
                     tx_instruction.accounts = Some [0, 6, 1, 0, 7, 2, 2] \<rparr>])
   \<and> migrationCandidate example_keys
         \<lparr> tx_instruction.programIdIndex = Some 5, programId = None,
           tx_instruction.accounts = Some [0, 6, 1, 0, 7, 2, 2] \<rparr>
   \<and> extractMigrationData example_tx ''5sig''
       = Some (PumpSwap ''5sig'' 42 (Some 1700000000) ''token'' ''curve'')"
proof -
  let ?i0 = "\<lparr> tx_instruction.programIdIndex = Some 3, programId = None,
               tx_instruction.accounts = Some [] \<rparr>"
  let ?i1 = "\<lparr> tx_instruction.programIdIndex = Some 4, programId = None,
               tx_instruction.accounts = Some [0, 1, 2] \<rparr>"
  let ?i2 = "\<lparr> tx_instruction.programIdIndex = Some 5, programId = None,
               tx_instruction.accounts = Some [0, 6, 1, 0, 7, 2, 2] \<rparr>"
  have k: "selectedKeys (message example_tx) = Some example_keys"
    by (simp add: selectedKeys_def example_tx_def)
  have i: "selectedInstructions (message example_tx) = Some ([?i0] @ ?i1 # [?i2])"
    by (simp add: selectedInstructions_def example_tx_def)
  have p: "list_all (\<lambda>i. \<not> migrationCandidate example_keys i) [?i0]"
    by (simp add: migrationCandidate_def example_keys_def at_index_def
        RAYDIUM_PROGRAM_def PUMPFUN_PROGRAM_def)
  have c: "migrationCandidate example_keys ?i1"
    by (simp add: migrationCandidate_def example_keys_def at_index_def)
  have c2: "migrationCandidate example_keys ?i2"
    by (simp add: migrationCandidate_def example_keys_def at_index_def)
  have r: "scanInstructions (Some example_keys) example_tx ''5sig'' [?i1]
             = Inr (Some (PumpSwap ''5sig'' 42 (Some 1700000000) ''token'' ''curve''))"
    by (simp add: instructionProgram_def key_at_def at_index_def example_keys_def
        pumpswapData_def example_tx_def RAYDIUM_PROGRAM_def PUMPFUN_PROGRAM_def)
  show ?thesis
    using first_candidate_decides [OF k i p c, of "''5sig''"] k i c2 r by simp
qed

section \<open>Base58\<close>

lemma base58_digits_step:
  "0 < n \<Longrightarrow> d < 58 \<Longrightarrow> base58_digits (n * 58 + d) = base58_digits n @ [d]"
  by (subst base58_digits.simps) simp

lemma base58_digits_single: "0 < d \<Longrightarrow> d < 58 \<Longrightarrow> base58_digits d = [d]"
  by (subst base58_digits.simps, simp, subst base58_digits.simps, simp)

lemma horner_pos:
  "ds \<noteq> [] \<Longrightarrow> 0 < hd ds \<Longrightarrow> 0 < foldl (\<lambda>a d. a * 58 + d) (0::nat) ds"
  by (induction ds rule: rev_induct) (auto simp: hd_append split: if_splits)

text \<open>The digits of a number given in base 58 are the digits it was given by.\<close>

lemma base58_digits_horner:
  "ds \<noteq> [] \<Longrightarrow> 0 < hd ds \<Longrightarrow> list_all (\<lambda>d. d < 58) ds \<Longrightarrow>
   base58_digits (foldl (\<lambda>a d. a * 58 + d) 0 ds) = ds"
proof (induction ds rule: rev_induct)
  case Nil
  then show ?case by simp
next
  case (snoc d ds)
  show ?case
  proof (cases "ds = []")
    case True
    with snoc.prems show ?thesis by (simp add: base58_digits_single)
  next
    case False
    with snoc.prems have h: "0 < hd ds" "list_all (\<lambda>d. d < 58) ds" "d < 58"
      by (auto simp: hd_append)
    from horner_pos [OF False h(1)] snoc.IH [OF False h(1) h(2)] h(3)
    show ?thesis by (simp add: base58_digits_step)
  qed
qed

lemma pumpfun_key_digits:
  "base58_digits (be_value pumpfun_key) = [5, 13, 14, 7, 49, 49, 37, 35, 51, 40, 24, 4, 12, 43, 57, 46, 45, 7, 21, 54, 52, 6, 7, 40, 24, 53, 38, 11, 18, 52, 34, 17, 0, 3, 20, 4, 52, 10, 13, 54, 14, 5, 22]"
proof -
  have "be_value pumpfun_key = foldl (\<lambda>a d. a * 58 + d) 0 [5, 13, 14, 7, 49, 49, 37, 35, 51, 40, 24, 4, 12, 43, 57, 46, 45, 7, 21, 54, 52, 6, 7, 40, 24, 53, 38, 11, 18, 52, 34, 17, 0, 3, 20, 4, 52, 10, 13, 54, 14, 5, 22]"
    by (simp add: be_value_def pumpfun_key_def)
  then show ?thesis
    using base58_digits_horner [of "[5, 13, 14, 7, 49, 49, 37, 35, 51, 40, 24, 4, 12, 43, 57, 46, 45, 7, 21, 54, 52, 6, 7, 40, 24, 53, 38, 11, 18, 52, 34, 17, 0, 3, 20, 4, 52, 10, 13, 54, 14, 5, 22]"] by simp
qed

lemma pumpfun_key_encoded: "bs58_encode pumpfun_key = PUMPFUN_PROGRAM"
proof -
  have "takeWhile (\<lambda>b. b = 0) pumpfun_key = []" "dropWhile (\<lambda>b. b = 0) pumpfun_key = pumpfun_key"
    by (simp_all add: pumpfun_key_def)
  then show ?thesis
    by (simp add: bs58_encode_def pumpfun_key_digits ALPHABET_def PUMPFUN_PROGRAM_def)
qed


lemma small_key_encoded:
  "0 < unat b \<Longrightarrow> unat b < 58 \<Longrightarrow> bs58_encode [b] = [ALPHABET ! unat b]"
proof -
  assume h: "0 < unat b" "unat b < 58"
  then have "b \<noteq> 0" by auto
  then show ?thesis using h by (simp add: bs58_encode_def be_value_def base58_digits_single)
qed

section \<open>The token mint monitor\<close>

lemma slice_short: "length d < 8 \<Longrightarrow> slice d 0 8 \<noteq> CREATE_DISCRIMINATOR"
proof
  assume "length d < 8" and "slice d 0 8 = CREATE_DISCRIMINATOR"
  then have "length (slice d 0 8) = 8" by (simp add: CREATE_DISCRIMINATOR_def)
  with \<open>length d < 8\<close> show False by (simp add: slice_def)
qed

text \<open>
  Claim C9, as amended. An instruction whose payload is shorter than 8 bytes is never
  reported as a create instruction. \<open>isCreateInstruction\<close> returns \<open>false\<close> for it when its
  program index lies inside the account list, and throws (a TypeError of \<open>bs58.encode\<close>)
  when the index lies outside; the handler catches that and leaves the remaining
  instructions of the message, so in neither case is a mint displayed for it.
\<close>

theorem short_payload_never_matches:
  assumes "length (data ins) < 8"
  shows "isCreateInstruction ins keys
           = (if programIdIndex ins < length keys then Inr False else Inl TypeError)
       \<and> isCreateInstruction ins keys \<noteq> Inr True
       \<and> checkInstructions decoder tx sg i (ins # rest) st
           = (if programIdIndex ins < length (accountKeys tx)
              then checkInstructions decoder tx sg (i + 1) rest st else st)"
  using slice_short [OF assms]
  by (simp add: isCreateInstruction_def encode_key_def at_index_def)

text \<open>Seven bytes of the discriminator, sent to the Pump.fun program.\<close>

theorem short_payload_never_matches_witness:
  "length (data short_instruction) < 8
   \<and> programIdIndex short_instruction < length mint_keys
   \<and> encode_key mint_keys (programIdIndex short_instruction) = Inr PUMPFUN_PROGRAM
   \<and> isCreateInstruction short_instruction mint_keys = Inr False
   \<and> checkInstructions ascii_text failed_create_tx ''2'' 0 [short_instruction] new_mint_monitor
       = new_mint_monitor"
proof -
  have l: "length (data short_instruction) < 8"
    by (simp add: short_instruction_def)
  have i: "programIdIndex short_instruction < length mint_keys"
    by (simp add: short_instruction_def mint_keys_def)
  have k: "encode_key mint_keys (programIdIndex short_instruction) = Inr PUMPFUN_PROGRAM"
    by (simp add: encode_key_def at_index_def short_instruction_def mint_keys_def
        pumpfun_key_encoded)
  have t: "accountKeys failed_create_tx = mint_keys"
    by (simp add: failed_create_tx_def)
  show ?thesis
    using short_payload_never_matches [OF l, where keys = mint_keys and decoder = ascii_text
        and tx = failed_create_tx and sg = "''2''" and i = 0 and rest = "[]"
        and st = new_mint_monitor] l i k t
    by simp
qed

text \<open>
  Claim C9 as stated fails: for the same seven bytes in an instruction whose program
  index is 9, with nine account keys, \<open>isCreateInstruction\<close> does not return \<open>false\<close>, it
  throws.
\<close>

theorem short_payload_can_throw:
  "length (data stray_instruction) < 8
   \<and> length mint_keys = 9
   \<and> programIdIndex stray_instruction = 9
   \<and> isCreateInstruction stray_instruction mint_keys = Inl TypeError"
  by (simp add: stray_instruction_def mint_keys_def isCreateInstruction_def encode_key_def
      at_index_def)

section \<open>Decoding length-prefixed strings\<close>

text \<open>
  Claim C2, as amended. \<open>decodeString\<close> throws (a RangeError) exactly when fewer than 4
  bytes remain at the offset. Once the length \<open>L\<close> is read it always returns: the \<open>L\<close>
  bytes after the length when they are there, and otherwise just the bytes that remain,
  decoded as the string; in both cases it reports \<open>4 + L\<close> bytes read.
\<close>

theorem decodeString_clamps:
  "(length buffer < offset + 4 \<longrightarrow> decodeString utf8 buffer offset = Inl RangeError)
   \<and> (offset + 4 \<le> length buffer
        \<and> offset + 4 + le_value (take 4 (drop offset buffer)) \<le> length buffer \<longrightarrow>
      decodeString utf8 buffer offset
        = Inr \<lparr> str_value = utf8 (take (le_value (take 4 (drop offset buffer)))
                                   (drop (offset + 4) buffer)),
                bytesRead = 4 + le_value (take 4 (drop offset buffer)) \<rparr>)
   \<and> (offset + 4 \<le> length buffer
        \<and> length buffer < offset + 4 + le_value (take 4 (drop offset buffer)) \<longrightarrow>
      decodeString utf8 buffer offset
        = Inr \<lparr> str_value = utf8 (drop (offset + 4) buffer),
                bytesRead = 4 + le_value (take 4 (drop offset buffer)) \<rparr>)"
  by (auto simp add: decodeString_def readUInt32LE_def slice_def take_all)

lemma text_Hi: "ascii_text [72, 105] = ''Hi''"
  by code_simp

lemma text_A: "ascii_text [65] = ''A''"
  by code_simp

text \<open>
  A length of 5 followed by only the two bytes of \<open>Hi\<close>; a length of 2 followed by them
  and one byte more; and a buffer too short for a length.
\<close>

theorem decodeString_clamps_witness:
  "length [5, 0, 0, 0, 72, 105 :: byte] < 0 + 4 + le_value (take 4 (drop 0 [5, 0, 0, 0, 72, 105 :: byte]))
   \<and> decodeString ascii_text [5, 0, 0, 0, 72, 105] 0 = Inr \<lparr> str_value = ''Hi'', bytesRead = 9 \<rparr>
   \<and> decodeString ascii_text [2, 0, 0, 0, 72, 105, 33] 0 = Inr \<lparr> str_value = ''Hi'', bytesRead = 6 \<rparr>
   \<and> decodeString ascii_text [5, 0, 0] 0 = Inl RangeError"
  using decodeString_clamps [of "[5, 0, 0, 0, 72, 105]" 0 ascii_text]
    decodeString_clamps [of "[2, 0, 0, 0, 72, 105, 33]" 0 ascii_text]
    decodeString_clamps [of "[5, 0, 0]" 0 ascii_text]
  by (simp add: le_value_def text_Hi)

text \<open>
  Claim C2 as stated fails: the length read is 3, one byte remains, and the result is
  the one-character string, not an error.
\<close>

theorem decodeString_truncates_silently:
  "readUInt32LE [3, 0, 0, 0, 65] 0 = Inr 3
   \<and> length [3, 0, 0, 0, 65 :: byte] < 4 + 3
   \<and> decodeString ascii_text [3, 0, 0, 0, 65] 0 = Inr \<lparr> str_value = ''A'', bytesRead = 7 \<rparr>"
  by (simp add: decodeString_def readUInt32LE_def slice_def le_value_def text_A)

section \<open>Failed transactions in the token mint monitor\<close>

lemma text_Foo: "ascii_text [70, 111, 111] = ''Foo''"
  by code_simp

lemma text_FOO: "ascii_text [70, 79, 79] = ''FOO''"
  by code_simp

lemma text_uri: "ascii_text [105, 112, 102, 115, 58, 47, 47, 120] = ''ipfs://x''"
  by code_simp

lemma create_is_create:
  "isCreateInstruction \<lparr> programIdIndex = 8, accounts = [0, 1, 2, 3, 4, 5, 6, 7],
      data = create_data \<rparr> mint_keys = Inr True"
  by (simp add: isCreateInstruction_def encode_key_def at_index_def mint_keys_def
      pumpfun_key_encoded slice_def create_data_def CREATE_DISCRIMINATOR_def)

lemma create_parses:
  "parseCreateInstruction ascii_text create_data
     = Some \<lparr> name = ''Foo'', symbol = ''FOO'', uri = ''ipfs://x'' \<rparr>"
  by (simp add: parseCreateInstruction_def decodeString_def readUInt32LE_def slice_def
      le_value_def create_data_def text_Foo text_FOO text_uri)

lemma create_accounts:
  "extractAccounts failed_create_tx 0
     = Some \<lparr> mint = Some ''B'', bondingCurve = Some ''D'', creator = Some ''J'' \<rparr>"
  by (simp add: extractAccounts_def failed_create_tx_def at_index_def mint_keys_def
      encode_key_def small_key_encoded ALPHABET_def)

text \<open>
  Claim C1 as stated fails in the token mint monitor: the update carries a failed
  transaction, and its create instruction is displayed as a new mint all the same.
\<close>

theorem failed_transaction_is_displayed:
  "meta_err failed_create_tx = Some ''InstructionError''
   \<and> onMintData ascii_text failed_create_update new_mint_monitor
     = \<lparr> totalMints = 1,
         displayed = [\<lparr> metadata = \<lparr> name = ''Foo'', symbol = ''FOO'', uri = ''ipfs://x'' \<rparr>,
                        addresses = \<lparr> mint = Some ''B'', bondingCurve = Some ''D'',
                                      creator = Some ''J'' \<rparr>,
                        mint_signature = ''2'', mint_slot = 7 \<rparr>],
         pings = [] \<rparr>"
proof -
  have t: "accountKeys failed_create_tx = mint_keys" "slot failed_create_tx = 7"
    "signature failed_create_tx = [1]"
    "instructions failed_create_tx = [\<lparr> programIdIndex = 8, accounts = [0, 1, 2, 3, 4, 5, 6, 7],
                       data = create_data \<rparr>]"
    "meta_err failed_create_tx = Some ''InstructionError''"
    by (simp_all add: failed_create_tx_def)
  have s: "bs58_encode [1] = ''2''"
    by (simp add: small_key_encoded ALPHABET_def)
  show ?thesis
    by (simp add: onMintData_def failed_create_update_def t s create_is_create create_parses
        create_accounts displayTokenMint_def new_mint_monitor_def)
qed

section \<open>Thresholds\<close>

lemma system_key_encoded: "bs58_encode system_key = SYSTEM_PROGRAM"
proof -
  have "bs58_encode system_key = replicate 32 (CHR ''1'')"
    by (simp add: bs58_encode_def system_key_def be_value_def base58_digits.simps)
  moreover have "replicate 32 (CHR ''1'') = SYSTEM_PROGRAM"
    by code_simp
  ultimately show ?thesis by simp
qed

lemma sol_threshold:
  "(real n / 1000000000 \<ge> MIN_TRANSFER_AMOUNT) = (100000000000 \<le> n)"
proof -
  have "(real n / 1000000000 \<ge> 100) = (100000000000 \<le> real n)"
    by (simp add: le_divide_eq)
  also have "\<dots> = (real (100000000000::nat) \<le> real n)" by simp
  also have "\<dots> = (100000000000 \<le> n)" by (simp only: of_nat_le_iff)
  finally show ?thesis by (simp add: MIN_TRANSFER_AMOUNT_def)
qed

lemma sol_threshold_scaled:
  "(MIN_TRANSFER_AMOUNT * 1000000000 \<le> real n) = (100000000000 \<le> n)"
  using sol_threshold [of n] by (simp add: le_divide_eq)

lemma checkTransfers_single:
  "encode_key (accountKeys tx) (programIdIndex ins) = Inr SYSTEM_PROGRAM \<Longrightarrow>
   parseTransferInstruction ins (accountKeys tx) = Some td \<Longrightarrow>
   checkTransfers tx sg [ins] st
     = (if 100000000000 \<le> amount td then displayTransfer td sg (slot tx) st else st)"
  by (simp add: sol_threshold_scaled Let_def)

lemma sendTelegramMessage_keeps:
  "console (sendTelegramMessage cfg now msg s) = console s"
  "tradeCount (sendTelegramMessage cfg now msg s) = tradeCount s"
  "pendingAlerts (sendTelegramMessage cfg now msg s) = pendingAlerts s"
  "batchTimer (sendTelegramMessage cfg now msg s) = batchTimer s"
  by (simp_all add: sendTelegramMessage_def processTelegramQueue_def Let_def split: list.splits)

lemma trackWhaleAddress_keeps:
  "console (trackWhaleAddress now a v c s) = console s"
  "tradeCount (trackWhaleAddress now a v c s) = tradeCount s"
  "pendingAlerts (trackWhaleAddress now a v c s) = pendingAlerts s"
  "batchTimer (trackWhaleAddress now a v c s) = batchTimer s"
  "telegramQueue (trackWhaleAddress now a v c s) = telegramQueue s"
  "posted (trackWhaleAddress now a v c s) = posted s"
  "isSendingTelegram (trackWhaleAddress now a v c s) = isSendingTelegram s"
  by (simp_all add: trackWhaleAddress_def split: option.splits)

lemma notifyWhaleTrade_console:
  "console (notifyWhaleTrade cfg now a s) = console s @ [TradeText a]"
  "tradeCount (notifyWhaleTrade cfg now a s) = tradeCount s"
  by (simp_all add: notifyWhaleTrade_def Let_def sendTelegramMessage_keeps)

lemma analyzeTrade_whale:
  fixes cfg :: "'a::{plus,times,linorder} config"
  assumes "px t * sz t \<ge> WHALE_THRESHOLD_USD cfg \<or> sz t \<ge> WHALE_THRESHOLD_SIZE cfg"
  shows "tradeCount (analyzeTrade cfg now t s) = tradeCount s + 1
       \<and> (\<exists>a. console (analyzeTrade cfg now t s) = console s @ [TradeText a]
              \<and> alert_value a = px t * sz t)"
  using assms
  by (simp add: analyzeTrade_def Let_def notifyWhaleTrade_console trackWhaleAddress_keeps
      split: option.splits)

text \<open>
  Claim C7, as amended. A System Program transfer that parses is displayed exactly when
  its amount is at least 100000000000 lamports (100 SOL), the bound included. A trade
  whose value equals the value threshold is counted and alerted; a trade whose value is
  below the value threshold gives nothing when its size is below the size threshold too.
\<close>

theorem threshold_is_inclusive:
  fixes cfg :: "'a::{plus,times,linorder} config"
  shows "(encode_key (accountKeys tx) (programIdIndex ins) = Inr SYSTEM_PROGRAM
          \<and> parseTransferInstruction ins (accountKeys tx) = Some td \<longrightarrow>
            checkTransfers tx sg [ins] st
              = (if 100000000000 \<le> amount td then displayTransfer td sg (slot tx) st else st))
       \<and> (px t * sz t = WHALE_THRESHOLD_USD cfg \<longrightarrow>
            tradeCount (analyzeTrade cfg now t s) = tradeCount s + 1
            \<and> (\<exists>a. console (analyzeTrade cfg now t s) = console s @ [TradeText a]
                   \<and> alert_value a = WHALE_THRESHOLD_USD cfg))
       \<and> (px t * sz t < WHALE_THRESHOLD_USD cfg \<and> sz t < WHALE_THRESHOLD_SIZE cfg \<longrightarrow>
            analyzeTrade cfg now t s = s)"
proof -
  have a: "encode_key (accountKeys tx) (programIdIndex ins) = Inr SYSTEM_PROGRAM
          \<and> parseTransferInstruction ins (accountKeys tx) = Some td \<longrightarrow>
            checkTransfers tx sg [ins] st
              = (if 100000000000 \<le> amount td then displayTransfer td sg (slot tx) st else st)"
    using checkTransfers_single [of tx ins td sg st] by blast
  have b: "px t * sz t = WHALE_THRESHOLD_USD cfg \<longrightarrow>
            tradeCount (analyzeTrade cfg now t s) = tradeCount s + 1
            \<and> (\<exists>a. console (analyzeTrade cfg now t s) = console s @ [TradeText a]
                   \<and> alert_value a = WHALE_THRESHOLD_USD cfg)"
    using analyzeTrade_whale [of cfg t now s] by auto
  have c: "px t * sz t < WHALE_THRESHOLD_USD cfg \<and> sz t < WHALE_THRESHOLD_SIZE cfg \<longrightarrow>
            analyzeTrade cfg now t s = s"
    by (auto simp: analyzeTrade_def Let_def)
  show ?thesis using a b c by blast
qed


lemma to_double_exact: "n < 9007199254740992 \<Longrightarrow> to_double n = n"
  by (simp add: to_double_def excess_bits.simps)

text \<open>Above \<open>2^53\<close> the conversion rounds, ties to the even significand.\<close>

lemma to_double_rounds:
  "to_double 9007199254740993 = 9007199254740992"
  "to_double 9007199254740995 = 9007199254740996"
  "to_double 18446744073709551615 = 18446744073709551616"
proof -
  have a: "excess_bits 9007199254740993 = 1" "excess_bits 9007199254740995 = 1"
    by (subst excess_bits.simps, simp, subst excess_bits.simps, simp)+
  have "excess_bits 18446744073709551615 = 11"
    by (subst excess_bits.simps, simp)+
  then show "to_double 18446744073709551615 = 18446744073709551616"
    by (simp add: to_double_def)
  show "to_double 9007199254740993 = 9007199254740992"
    "to_double 9007199254740995 = 9007199254740996"
    by (simp_all add: to_double_def a)
qed

lemma transfer_parses:
  "le_value lamports = n \<Longrightarrow> length lamports = 8 \<Longrightarrow> n < 9007199254740992 \<Longrightarrow>
   parseTransferInstruction (transfer_instruction lamports) transfer_keys
     = Some \<lparr> amount = n, from_account = ''B'', to_account = ''C'' \<rparr>"
  by (simp add: parseTransferInstruction_def transfer_instruction_def readUInt32LE_def
      readBigUInt64LE_def le_value_def encode_key_def at_index_def transfer_keys_def
      small_key_encoded ALPHABET_def Let_def to_double_exact)

lemma transfer_program:
  "encode_key (accountKeys (transfer_tx lamports)) (programIdIndex (transfer_instruction lamports))
     = Inr SYSTEM_PROGRAM"
  by (simp add: encode_key_def at_index_def transfer_tx_def transfer_instruction_def
      transfer_keys_def system_key_encoded)

text \<open>
  A transfer of exactly 100 SOL is displayed and one of a lamport less is not; a trade
  worth exactly 100000 is counted and one worth 99999 of size 1 is not.
\<close>

theorem threshold_is_inclusive_witness:
  "encode_key (accountKeys (transfer_tx hundred_sol))
       (programIdIndex (transfer_instruction hundred_sol)) = Inr SYSTEM_PROGRAM
   \<and> parseTransferInstruction (transfer_instruction hundred_sol)
         (accountKeys (transfer_tx hundred_sol))
       = Some \<lparr> amount = 100000000000, from_account = ''B'', to_account = ''C'' \<rparr>
   \<and> parseTransferInstruction (transfer_instruction below_hundred_sol)
         (accountKeys (transfer_tx below_hundred_sol))
       = Some \<lparr> amount = 99999999999, from_account = ''B'', to_account = ''C'' \<rparr>
   \<and> totalTransfers (checkTransfers (transfer_tx hundred_sol) ''2''
         [transfer_instruction hundred_sol] new_transfer_monitor) = 1
   \<and> checkTransfers (transfer_tx below_hundred_sol) ''2''
         [transfer_instruction below_hundred_sol] new_transfer_monitor = new_transfer_monitor
   \<and> px (example_trade 100000 1) * sz (example_trade 100000 1)
       = WHALE_THRESHOLD_USD example_config
   \<and> tradeCount (analyzeTrade example_config 0 (example_trade 100000 1) new_tracker) = 1
   \<and> px (example_trade 99999 1) * sz (example_trade 99999 1) < WHALE_THRESHOLD_USD example_config
   \<and> sz (example_trade 99999 1) < WHALE_THRESHOLD_SIZE example_config
   \<and> analyzeTrade example_config 0 (example_trade 99999 1) new_tracker = new_tracker"
proof -
  let ?td = "\<lparr> amount = 100000000000, from_account = ''B'', to_account = ''C'' \<rparr>"
  let ?tb = "\<lparr> amount = 99999999999, from_account = ''B'', to_account = ''C'' \<rparr>"
  have k: "accountKeys (transfer_tx hundred_sol) = transfer_keys"
    "accountKeys (transfer_tx below_hundred_sol) = transfer_keys"
    by (simp_all add: transfer_tx_def)
  have p1: "parseTransferInstruction (transfer_instruction hundred_sol)
              (accountKeys (transfer_tx hundred_sol)) = Some ?td"
    unfolding k by (rule transfer_parses) (simp_all add: hundred_sol_def le_value_def)
  have p2: "parseTransferInstruction (transfer_instruction below_hundred_sol)
              (accountKeys (transfer_tx below_hundred_sol)) = Some ?tb"
    unfolding k by (rule transfer_parses) (simp_all add: below_hundred_sol_def le_value_def)
  have v1: "px (example_trade 100000 1) * sz (example_trade 100000 1)
              = WHALE_THRESHOLD_USD example_config"
    by (simp add: example_trade_def example_config_def)
  have v2: "px (example_trade 99999 1) * sz (example_trade 99999 1)
              < WHALE_THRESHOLD_USD example_config"
    "sz (example_trade 99999 1) < WHALE_THRESHOLD_SIZE example_config"
    by (simp_all add: example_trade_def example_config_def)
  note a = threshold_is_inclusive [where tx = "transfer_tx hundred_sol"
      and ins = "transfer_instruction hundred_sol" and td = ?td and sg = "''2''"
      and st = new_transfer_monitor and t = "example_trade 100000 1" and cfg = example_config
      and now = 0 and s = new_tracker]
  note b = threshold_is_inclusive [where tx = "transfer_tx below_hundred_sol"
      and ins = "transfer_instruction below_hundred_sol" and td = ?tb and sg = "''2''"
      and st = new_transfer_monitor and t = "example_trade 99999 1" and cfg = example_config
      and now = 0 and s = new_tracker]
  show ?thesis
    using a b transfer_program [of hundred_sol] transfer_program [of below_hundred_sol]
      p1 p2 v1 v2
    by (simp add: displayTransfer_def new_transfer_monitor_def new_tracker_def Let_def)
qed

text \<open>
  Claim C7 as stated fails for trades: a trade of 123 contracts at 813 is worth 99999,
  one unit below the value threshold, and is alerted because its size reaches the size
  threshold.
\<close>

theorem trade_below_value_threshold_is_alerted:
  "px (example_trade 813 123) * sz (example_trade 813 123) = WHALE_THRESHOLD_USD example_config - 1
   \<and> tradeCount (analyzeTrade example_config 0 (example_trade 813 123) new_tracker) = 1
   \<and> console (analyzeTrade example_config 0 (example_trade 813 123) new_tracker)
       = [TradeText (example_alert 813 123)]"
  by (simp add: analyzeTrade_def example_trade_def example_config_def Let_def
      notifyWhaleTrade_console trackWhaleAddress_keeps new_tracker_def example_alert_def)

section \<open>Batching\<close>

text \<open>
  Claim C3, evaluated on the tracker with batching left on. Two whale trades of one
  frame are handed to the sink as two separate texts, one per trade; nothing is put
  into \<open>pendingAlerts\<close> and no batch timer is set.
\<close>

theorem batching_flag_is_ignored:
  "TELEGRAM_BATCH_ALERTS example_config
   \<and> TELEGRAM_BATCH_INTERVAL example_config = 600000
   \<and> handed_over (analyzeTrades example_config 1700000000000
         [example_trade 100000 1, example_trade 60000 2] new_tracker)
       = [TradeText (example_alert 100000 1), TradeText (example_alert 60000 2)]
   \<and> pendingAlerts (analyzeTrades example_config 1700000000000
         [example_trade 100000 1, example_trade 60000 2] new_tracker) = []
   \<and> batchTimer (analyzeTrades example_config 1700000000000
         [example_trade 100000 1, example_trade 60000 2] new_tracker) = None"
  by (simp add: analyzeTrades_def analyzeTrade_def example_trade_def example_config_def Let_def
      notifyWhaleTrade_def sendTelegramMessage_def processTelegramQueue_def
      trackWhaleAddress_def new_tracker_def example_alert_def handed_over_def
      BATCH_ALERTS_setting_def BATCH_INTERVAL_setting_def)

section \<open>Rate limiting\<close>

text \<open>
  Claim C8. When the sink answers the text in flight with status 429 and a
  \<open>retry_after\<close> of \<open>r\<close> seconds at time \<open>t\<close>, the text is put back at the front of the
  queue, the next run of \<open>processTelegramQueue\<close> is scheduled no earlier than \<open>r\<close> seconds
  (and the send delay) after \<open>t\<close>, and that run takes the same text and posts it again.
\<close>

theorem rate_limited_text_is_retried:
  assumes "inFlight s = Some msg" and "TELEGRAM_DELAY s = 1500"
  shows "case processTelegramQueue_settled t (ReplyError 429 (Some r)) s of
           (s', next) \<Rightarrow>
             telegramQueue s' = msg # telegramQueue s
             \<and> t + int r * 1000 + 1500 \<le> next
             \<and> inFlight (processTelegramQueue next s') = Some msg
             \<and> posted (processTelegramQueue next s') = posted s @ [(next, msg)]
             \<and> telegramQueue (processTelegramQueue next s') = telegramQueue s"
  using assms
  by (simp add: processTelegramQueue_settled_def processTelegramQueue_def Let_def)

text \<open>The alert of a whale trade, answered with 429 and a \<open>retry_after\<close> of 5 seconds.\<close>

theorem rate_limited_text_is_retried_witness:
  "inFlight (analyzeTrade example_config 1700000000000 (example_trade 100000 1) new_tracker)
     = Some (TradeText (example_alert 100000 1))
   \<and> TELEGRAM_DELAY (analyzeTrade example_config 1700000000000 (example_trade 100000 1)
         new_tracker) = 1500
   \<and> (case processTelegramQueue_settled 1700000000200 (ReplyError 429 (Some 5))
            (analyzeTrade example_config 1700000000000 (example_trade 100000 1) new_tracker) of
         (s', next) \<Rightarrow>
           telegramQueue s' = [TradeText (example_alert 100000 1)]
           \<and> next = 1700000006700
           \<and> posted (processTelegramQueue next s')
               = [(1700000000000, TradeText (example_alert 100000 1)),
                  (1700000006700, TradeText (example_alert 100000 1))])"
proof -
  let ?s = "analyzeTrade example_config 1700000000000 (example_trade 100000 1) new_tracker"
  have f: "inFlight ?s = Some (TradeText (example_alert 100000 1))"
    "TELEGRAM_DELAY ?s = 1500" "telegramQueue ?s = []"
    "posted ?s = [(1700000000000, TradeText (example_alert 100000 1))]"
    by (simp_all add: analyzeTrade_def example_trade_def example_config_def Let_def
        notifyWhaleTrade_def sendTelegramMessage_def processTelegramQueue_def
        trackWhaleAddress_def new_tracker_def example_alert_def)
  have n: "snd (processTelegramQueue_settled 1700000000200 (ReplyError 429 (Some 5)) ?s)
             = 1700000006700"
    using f by (simp add: processTelegramQueue_settled_def Let_def)
  show ?thesis
    using rate_limited_text_is_retried [OF f(1) f(2), of 1700000000200 5] f n
    by (auto split: prod.splits)
qed

end
